theory Spec2Isabelle
  imports Main "HOL-Library.Word"
begin

unbundle bit_operations_syntax

section \<open>xHook ELF engine: data model\<close>

text \<open>
  The embedding follows \<^verbatim>\<open>src/libxhook/jni/xh_elf.c\<close>.  The source is compiled
  for 32-bit ARM or for AArch64; \<^verbatim>\<open>ElfW(Addr)\<close>, \<^verbatim>\<open>size_t\<close>, \<^verbatim>\<open>ssize_t\<close> and
  every pointer are modelled as \<^typ>\<open>'a word\<close>, with \<open>LENGTH('a) = 32\<close> for the ARM
  build and \<open>LENGTH('a) = 64\<close> for the \<^verbatim>\<open>__LP64__\<close> build.  \<^verbatim>\<open>ElfW(Word)\<close> and
  \<^verbatim>\<open>uint32_t\<close> are \<^typ>\<open>32 word\<close>, \<^verbatim>\<open>uint8_t\<close> is \<^typ>\<open>8 word\<close>, a C \<^verbatim>\<open>int\<close> flag is
  \<^typ>\<open>int\<close>.  A null pointer is the word \<open>0\<close>.

  The status codes of \<^verbatim>\<open>xh_errno.h\<close> are the first five constructors of
  \<open>error\<close> (a status of \<open>0\<close> is the \<open>Inr\<close> side of a result); the three traps
  are the undefined behaviours the source can reach: reading through a null
  pointer, a remainder by zero, and a shift by the width of its operand or more.
  A trap ends the run: no caller tests for it.
\<close>

datatype error =
    XH_ERRNO_UNKNOWN
  | XH_ERRNO_INVAL
  | XH_ERRNO_NOTFND
  | XH_ERRNO_FORMAT
  | XH_ERRNO_ELFINIT
  | TRAP_NULL_DEREF
  | TRAP_DIV_ZERO
  | TRAP_UNDEF_SHIFT

fun is_trap :: "error \<Rightarrow> bool" where
  "is_trap TRAP_NULL_DEREF = True"
| "is_trap TRAP_DIV_ZERO = True"
| "is_trap TRAP_UNDEF_SHIFT = True"
| "is_trap e = False"

text \<open>
  Bytes of one \<^verbatim>\<open>ElfW(Addr)\<close>, and \<^verbatim>\<open>sizeof(ElfW(Rel))\<close>, \<^verbatim>\<open>sizeof(ElfW(Rela))\<close>:
  two and three address-sized fields (8 and 12 bytes on ARM, 16 and 24 on AArch64).
\<close>

definition addr_bytes :: "'a::len itself \<Rightarrow> nat" where
  "addr_bytes t = LENGTH('a) div 8"

definition sizeof_Rel :: "'a::len itself \<Rightarrow> nat" where
  "sizeof_Rel t = 2 * addr_bytes t"

definition sizeof_Rela :: "'a::len itself \<Rightarrow> nat" where
  "sizeof_Rela t = 3 * addr_bytes t"

record 'w Elf_Rel =
  rel_r_offset :: 'w
  rel_r_info :: 'w

record 'w Elf_Rela =
  rela_r_offset :: 'w
  rela_r_info :: 'w
  rela_r_addend :: 'w

section \<open>Plain relocation iterator\<close>

record 'w xh_elf_plain_reloc_iterator_t =
  it_cur :: 'w
  it_end :: 'w
  it_is_use_rela :: int

definition xh_elf_plain_reloc_iterator_init ::
  "'a::len word \<Rightarrow> 32 word \<Rightarrow> int \<Rightarrow> 'a word xh_elf_plain_reloc_iterator_t" where
  "xh_elf_plain_reloc_iterator_init rel rel_sz is_use_rela =
     \<lparr> it_cur = rel, it_end = rel + ucast rel_sz, it_is_use_rela = is_use_rela \<rparr>"

text \<open>
  \<^verbatim>\<open>next\<close> returns the pointer (null when the cursor has reached the end) and
  the iterator as it leaves it: the cursor is advanced \<^emph>\<open>before\<close> it is returned.
\<close>

definition xh_elf_plain_reloc_iterator_next ::
  "'a::len word xh_elf_plain_reloc_iterator_t \<Rightarrow> 'a word \<times> 'a word xh_elf_plain_reloc_iterator_t" where
  "xh_elf_plain_reloc_iterator_next self =
     (if it_end self \<le> it_cur self then (0, self)
      else let self' = self\<lparr> it_cur := it_cur self +
                          (if it_is_use_rela self \<noteq> 0 then of_nat (sizeof_Rela TYPE('a))
                           else of_nat (sizeof_Rel TYPE('a))) \<rparr>
           in (it_cur self', self'))"

text \<open>
  The caller's loop \<^verbatim>\<open>while(NULL != (rel_common = next(&iter)))\<close>, collecting the
  pointers it sees.  The loop need not end (the cursor may wrap around the address
  space), so the result is optional.
\<close>

partial_function (option) plain_reloc_yield ::
  "'a::len word xh_elf_plain_reloc_iterator_t \<Rightarrow> 'a word list option" where
  "plain_reloc_yield self =
     (case xh_elf_plain_reloc_iterator_next self of
        (p, self') \<Rightarrow>
          if p = 0 then Some []
          else Option.bind (plain_reloc_yield self') (\<lambda>ps. Some (p # ps)))"

section \<open>SLEB128 decoder\<close>

record 'w xh_elf_sleb128_decoder_t =
  dec_cur :: 'w
  dec_end :: 'w

definition xh_elf_sleb128_decoder_init ::
  "'a::len word \<Rightarrow> 32 word \<Rightarrow> 'a word xh_elf_sleb128_decoder_t" where
  "xh_elf_sleb128_decoder_init rel rel_sz = \<lparr> dec_cur = rel, dec_end = rel + ucast rel_sz \<rparr>"

text \<open>
  The \<^verbatim>\<open>do ... while(byte & 128)\<close> loop, from the accumulator \<open>v\<close> and the shift
  reached so far; memory is a byte store.  It returns the accumulator, the shift
  and the last byte, or \<^verbatim>\<open>XH_ERRNO_FORMAT\<close> when the cursor meets the end; the
  decoder is returned as the loop leaves it.  \<^verbatim>\<open>(size_t)(byte & 127) << shift\<close> is
  undefined once \<open>shift\<close> has reached the width of \<^verbatim>\<open>size_t\<close> (at the 11th byte of
  one number on AArch64, at the 6th on ARM): the loop traps there, the byte read.
\<close>

function sleb128_loop ::
  "('a::len word \<Rightarrow> 8 word) \<Rightarrow> 'a word xh_elf_sleb128_decoder_t \<Rightarrow> 'a word \<Rightarrow> 'a word
     \<Rightarrow> (error + 'a word \<times> 'a word \<times> 8 word) \<times> 'a word xh_elf_sleb128_decoder_t" where
  "sleb128_loop mem self v shift =
     (if dec_end self \<le> dec_cur self then (Inl XH_ERRNO_FORMAT, self)
      else let byte = mem (dec_cur self);
               self' = self\<lparr> dec_cur := dec_cur self + 1 \<rparr>;
               v' = v OR push_bit (unat shift) (ucast (byte AND 127));
               shift' = shift + 7
           in if LENGTH('a) \<le> unat shift then (Inl TRAP_UNDEF_SHIFT, self')
              else if byte AND 128 \<noteq> 0 then sleb128_loop mem self' v' shift'
              else (Inr (v', shift', byte), self'))"
  by pat_completeness auto
termination
proof (relation "measure (\<lambda>(mem, self, v, shift). unat (dec_end self) - unat (dec_cur self))")
  show "wf (measure (\<lambda>(mem, self, v, shift).
              unat (dec_end (self :: 'a word xh_elf_sleb128_decoder_t)) - unat (dec_cur self)))"
    by simp
next
  fix mem :: "'a word \<Rightarrow> 8 word" and self :: "'a word xh_elf_sleb128_decoder_t"
    and v shift :: "'a word" and byte self' v' shift'
  assume "\<not> dec_end self \<le> dec_cur self" and "self' = self\<lparr> dec_cur := dec_cur self + 1 \<rparr>"
  then have "unat (dec_end self') - unat (dec_cur self') < unat (dec_end self) - unat (dec_cur self)"
    by (simp, unat_arith)
  then show "((mem, self', v', shift'), (mem, self, v, shift))
      \<in> measure (\<lambda>(mem, self, v, shift). unat (dec_end self) - unat (dec_cur self))"
    by simp
qed

definition xh_elf_sleb128_decoder_next ::
  "('a::len word \<Rightarrow> 8 word) \<Rightarrow> 'a word xh_elf_sleb128_decoder_t
     \<Rightarrow> (error + 'a word) \<times> 'a word xh_elf_sleb128_decoder_t" where
  "xh_elf_sleb128_decoder_next mem self =
     (case sleb128_loop mem self 0 0 of
        (Inl e, self') \<Rightarrow> (Inl e, self')
      | (Inr (v, shift, byte), self') \<Rightarrow>
          (Inr (if unat shift < LENGTH('a) \<and> byte AND 64 \<noteq> 0
                then v OR - push_bit (unat shift) 1 else v), self'))"



section \<open>Packed (APS2) relocation iterator\<close>

record 'w xh_elf_packed_reloc_iterator_t =
  decoder :: "'w xh_elf_sleb128_decoder_t"
  relocation_count :: 'w
  group_size :: 'w
  group_flags :: 'w
  group_r_offset_delta :: 'w
  relocation_index :: 'w
  relocation_group_index :: 'w
  rela :: "'w Elf_Rela"
  rel :: "'w Elf_Rel"
  r_offset :: 'w
  r_info :: 'w
  r_addend :: 'w
  pk_is_use_rela :: int

definition RELOCATION_GROUPED_BY_INFO_FLAG :: "'a::len word" where
  "RELOCATION_GROUPED_BY_INFO_FLAG = 1"

definition RELOCATION_GROUPED_BY_OFFSET_DELTA_FLAG :: "'a::len word" where
  "RELOCATION_GROUPED_BY_OFFSET_DELTA_FLAG = 2"

definition RELOCATION_GROUPED_BY_ADDEND_FLAG :: "'a::len word" where
  "RELOCATION_GROUPED_BY_ADDEND_FLAG = 4"

definition RELOCATION_GROUP_HAS_ADDEND_FLAG :: "'a::len word" where
  "RELOCATION_GROUP_HAS_ADDEND_FLAG = 8"

text \<open>
  \<^verbatim>\<open>if(0 != (r = f(self))) return r;\<close> followed by the rest \<open>g\<close> of the function:
  the state is kept as \<open>f\<close> left it in both cases.
\<close>

definition or_return ::
  "('s \<Rightarrow> (error + unit) \<times> 's) \<Rightarrow> ('s \<Rightarrow> (error + 'r) \<times> 's) \<Rightarrow> 's \<Rightarrow> (error + 'r) \<times> 's" where
  "or_return f g self = (case f self of (Inl e, s) \<Rightarrow> (Inl e, s) | (Inr u, s) \<Rightarrow> g s)"

text \<open>
  \<^verbatim>\<open>xh_elf_sleb128_decoder_next(&(self->decoder), &x)\<close> where the decoded number
  then goes into the iterator by \<open>store\<close> (nothing is stored when decoding fails).
\<close>

definition packed_read ::
  "('a::len word \<Rightarrow> 8 word)
     \<Rightarrow> ('a word \<Rightarrow> 'a word xh_elf_packed_reloc_iterator_t \<Rightarrow> 'a word xh_elf_packed_reloc_iterator_t)
     \<Rightarrow> 'a word xh_elf_packed_reloc_iterator_t
     \<Rightarrow> (error + unit) \<times> 'a word xh_elf_packed_reloc_iterator_t" where
  "packed_read mem store self =
     (case xh_elf_sleb128_decoder_next mem (decoder self) of
        (Inl e, d) \<Rightarrow> (Inl e, self\<lparr> decoder := d \<rparr>)
      | (Inr v, d) \<Rightarrow> (Inr (), store v (self\<lparr> decoder := d \<rparr>)))"

definition xh_elf_packed_reloc_iterator_init ::
  "('a::len word \<Rightarrow> 8 word) \<Rightarrow> 'a word \<Rightarrow> 32 word \<Rightarrow> int
     \<Rightarrow> (error + unit) \<times> 'a word xh_elf_packed_reloc_iterator_t" where
  "xh_elf_packed_reloc_iterator_init mem rel_addr rel_sz is_use_rela =
     or_return (packed_read mem (\<lambda>v s. s\<lparr> relocation_count := v \<rparr>))
    (or_return (packed_read mem (\<lambda>v s. s\<lparr> r_offset := v \<rparr>))
    (\<lambda>s. (Inr (), s)))
     \<lparr> decoder = xh_elf_sleb128_decoder_init rel_addr rel_sz,
       relocation_count = 0, group_size = 0, group_flags = 0, group_r_offset_delta = 0,
       relocation_index = 0, relocation_group_index = 0,
       rela = \<lparr> rela_r_offset = 0, rela_r_info = 0, rela_r_addend = 0 \<rparr>,
       rel = \<lparr> rel_r_offset = 0, rel_r_info = 0 \<rparr>,
       r_offset = 0, r_info = 0, r_addend = 0,
       pk_is_use_rela = is_use_rela \<rparr>"

definition xh_elf_packed_reloc_iterator_read_group_fields ::
  "('a::len word \<Rightarrow> 8 word) \<Rightarrow> 'a word xh_elf_packed_reloc_iterator_t
     \<Rightarrow> (error + unit) \<times> 'a word xh_elf_packed_reloc_iterator_t" where
  "xh_elf_packed_reloc_iterator_read_group_fields mem =
     or_return (packed_read mem (\<lambda>v s. s\<lparr> group_size := v \<rparr>))
    (or_return (packed_read mem (\<lambda>v s. s\<lparr> group_flags := v \<rparr>))
    (or_return (\<lambda>s. if group_flags s AND RELOCATION_GROUPED_BY_OFFSET_DELTA_FLAG \<noteq> 0
                     then packed_read mem (\<lambda>v s. s\<lparr> group_r_offset_delta := v \<rparr>) s
                     else (Inr (), s))
    (or_return (\<lambda>s. if group_flags s AND RELOCATION_GROUPED_BY_INFO_FLAG \<noteq> 0
                     then packed_read mem (\<lambda>v s. s\<lparr> r_info := v \<rparr>) s
                     else (Inr (), s))
    (or_return (\<lambda>s. if group_flags s AND RELOCATION_GROUP_HAS_ADDEND_FLAG \<noteq> 0 \<and>
                        group_flags s AND RELOCATION_GROUPED_BY_ADDEND_FLAG \<noteq> 0
                     then if pk_is_use_rela s = 0 then (Inl XH_ERRNO_FORMAT, s)
                          else packed_read mem (\<lambda>v s. s\<lparr> r_addend := r_addend s + v \<rparr>) s
                     else if group_flags s AND RELOCATION_GROUP_HAS_ADDEND_FLAG = 0
                          then (Inr (), s\<lparr> r_addend := 0 \<rparr>)
                          else (Inr (), s))
    (\<lambda>s. (Inr (), s\<lparr> relocation_group_index := 0 \<rparr>))))))"

text \<open>
  What \<^verbatim>\<open>next\<close> hands out: a pointer into the image (plain iterator), or the
  address of the record the packed iterator has just synthesised in itself;
  the record is carried along.
\<close>

datatype 'w reloc_ptr = InImage 'w | PackedRela "'w Elf_Rela" | PackedRel "'w Elf_Rel"

text \<open>
  The part of \<^verbatim>\<open>next\<close> between the end-of-stream test and the emission: every
  failure status in it makes \<^verbatim>\<open>next\<close> return \<^verbatim>\<open>NULL\<close> (\<open>Inr None\<close> below), and a
  trap in it ends \<^verbatim>\<open>next\<close> (\<open>Inl\<close> below).
\<close>

definition packed_next_fields ::
  "('a::len word \<Rightarrow> 8 word) \<Rightarrow> 'a word xh_elf_packed_reloc_iterator_t
     \<Rightarrow> (error + unit) \<times> 'a word xh_elf_packed_reloc_iterator_t" where
  "packed_next_fields mem =
     or_return (\<lambda>s. if relocation_group_index s = group_size s
                     then xh_elf_packed_reloc_iterator_read_group_fields mem s
                     else (Inr (), s))
    (or_return (\<lambda>s. if group_flags s AND RELOCATION_GROUPED_BY_OFFSET_DELTA_FLAG \<noteq> 0
                     then (Inr (), s\<lparr> r_offset := r_offset s + group_r_offset_delta s \<rparr>)
                     else packed_read mem (\<lambda>v s. s\<lparr> r_offset := r_offset s + v \<rparr>) s)
    (or_return (\<lambda>s. if group_flags s AND RELOCATION_GROUPED_BY_INFO_FLAG = 0
                     then packed_read mem (\<lambda>v s. s\<lparr> r_info := v \<rparr>) s
                     else (Inr (), s))
    (or_return (\<lambda>s. if pk_is_use_rela s \<noteq> 0 \<and>
                        group_flags s AND RELOCATION_GROUP_HAS_ADDEND_FLAG \<noteq> 0 \<and>
                        group_flags s AND RELOCATION_GROUPED_BY_ADDEND_FLAG = 0
                     then packed_read mem (\<lambda>v s. s\<lparr> r_addend := r_addend s + v \<rparr>) s
                     else (Inr (), s))
    (\<lambda>s. (Inr (), s\<lparr> relocation_index := relocation_index s + 1,
                        relocation_group_index := relocation_group_index s + 1 \<rparr>)))))"

definition xh_elf_packed_reloc_iterator_next ::
  "('a::len word \<Rightarrow> 8 word) \<Rightarrow> 'a word xh_elf_packed_reloc_iterator_t
     \<Rightarrow> (error + 'a word reloc_ptr option) \<times> 'a word xh_elf_packed_reloc_iterator_t" where
  "xh_elf_packed_reloc_iterator_next mem self =
     (if relocation_count self \<le> relocation_index self then (Inr None, self)
      else case packed_next_fields mem self of
             (Inl e, s) \<Rightarrow> if is_trap e then (Inl e, s) else (Inr None, s)
           | (Inr u, s) \<Rightarrow>
               if pk_is_use_rela s \<noteq> 0
               then let s' = s\<lparr> rela := \<lparr> rela_r_offset = r_offset s, rela_r_info = r_info s,
                                          rela_r_addend = r_addend s \<rparr> \<rparr>
                    in (Inr (Some (PackedRela (rela s'))), s')
               else let s' = s\<lparr> rel := \<lparr> rel_r_offset = r_offset s, rel_r_info = r_info s \<rparr> \<rparr>
                    in (Inr (Some (PackedRel (rel s'))), s'))"

text \<open>
  \<open>k\<close> successive calls of the decoder, and of \<^verbatim>\<open>next\<close>, with what each returned.
\<close>

fun sleb128_decode_many ::
  "('a::len word \<Rightarrow> 8 word) \<Rightarrow> nat \<Rightarrow> 'a word xh_elf_sleb128_decoder_t
     \<Rightarrow> (error + 'a word) list \<times> 'a word xh_elf_sleb128_decoder_t" where
  "sleb128_decode_many mem 0 d = ([], d)"
| "sleb128_decode_many mem (Suc k) d =
     (case xh_elf_sleb128_decoder_next mem d of
        (r, d') \<Rightarrow> (case sleb128_decode_many mem k d' of (rs, d'') \<Rightarrow> (r # rs, d'')))"

fun packed_next_many ::
  "('a::len word \<Rightarrow> 8 word) \<Rightarrow> nat \<Rightarrow> 'a word xh_elf_packed_reloc_iterator_t
     \<Rightarrow> (error + 'a word reloc_ptr option) list \<times> 'a word xh_elf_packed_reloc_iterator_t" where
  "packed_next_many mem 0 s = ([], s)"
| "packed_next_many mem (Suc k) s =
     (case xh_elf_packed_reloc_iterator_next mem s of
        (r, s') \<Rightarrow> (case packed_next_many mem k s' of (rs, s'') \<Rightarrow> (r # rs, s'')))"

section \<open>The loaded image\<close>

text \<open>
  The image of the loaded object is a byte store addressed by \<^verbatim>\<open>ElfW(Addr)\<close>;
  both targets are little-endian.  \<open>rd16\<close>, \<open>rd32\<close> and \<open>rd_addr\<close> read a
  \<^verbatim>\<open>uint16_t\<close>, a \<^verbatim>\<open>uint32_t\<close> and an address-sized field.  \<open>lp64\<close> is the
  \<^verbatim>\<open>__LP64__\<close> (AArch64) build; every other width is read as the ARM build.
\<close>

definition lp64 :: "'a::len itself \<Rightarrow> bool" where
  "lp64 t = (LENGTH('a) = 64)"

definition rd16 :: "('a::len word \<Rightarrow> 8 word) \<Rightarrow> 'a word \<Rightarrow> 16 word" where
  "rd16 mem a = ucast (mem a) OR push_bit 8 (ucast (mem (a + 1)))"

definition rd32 :: "('a::len word \<Rightarrow> 8 word) \<Rightarrow> 'a word \<Rightarrow> 32 word" where
  "rd32 mem a = ucast (mem a) OR push_bit 8 (ucast (mem (a + 1)))
                OR push_bit 16 (ucast (mem (a + 2))) OR push_bit 24 (ucast (mem (a + 3)))"

definition rd_addr :: "('a::len word \<Rightarrow> 8 word) \<Rightarrow> 'a word \<Rightarrow> 'a word" where
  "rd_addr mem a =
     (if lp64 TYPE('a) then ucast (rd32 mem a) OR push_bit 32 (ucast (rd32 mem (a + 4)))
      else ucast (rd32 mem a))"

text \<open>
  The store after \<^verbatim>\<open>*(void **)a = v\<close>: the bytes of \<open>v\<close>, the least significant
  first, at \<open>a\<close>, \<open>a + 1\<close>, ...
\<close>

definition wr_addr :: "('a::len word \<Rightarrow> 8 word) \<Rightarrow> 'a word \<Rightarrow> 'a word \<Rightarrow> 'a word \<Rightarrow> 8 word" where
  "wr_addr mem a v =
     (\<lambda>p. if unat (p - a) < addr_bytes TYPE('a) then ucast (drop_bit (8 * unat (p - a)) v)
          else mem p)"

text \<open>
  The layouts of \<^verbatim>\<open><elf.h>\<close> (system header): the offsets of the fields the source
  reads in \<^verbatim>\<open>ElfW(Ehdr)\<close>, \<^verbatim>\<open>ElfW(Phdr)\<close>, \<^verbatim>\<open>ElfW(Dyn)\<close>, \<^verbatim>\<open>ElfW(Sym)\<close>, and the sizes of
  these records, for \<^verbatim>\<open>Elf32\<close> and \<^verbatim>\<open>Elf64\<close>.
\<close>

definition e_ident :: "('a::len word \<Rightarrow> 8 word) \<Rightarrow> 'a word \<Rightarrow> nat \<Rightarrow> 8 word" where
  "e_ident mem ehdr_p i = mem (ehdr_p + of_nat i)"

definition e_type :: "('a::len word \<Rightarrow> 8 word) \<Rightarrow> 'a word \<Rightarrow> 16 word" where
  "e_type mem ehdr_p = rd16 mem (ehdr_p + 16)"

definition e_machine :: "('a::len word \<Rightarrow> 8 word) \<Rightarrow> 'a word \<Rightarrow> 16 word" where
  "e_machine mem ehdr_p = rd16 mem (ehdr_p + 18)"

definition e_version :: "('a::len word \<Rightarrow> 8 word) \<Rightarrow> 'a word \<Rightarrow> 32 word" where
  "e_version mem ehdr_p = rd32 mem (ehdr_p + 20)"

definition e_phoff :: "('a::len word \<Rightarrow> 8 word) \<Rightarrow> 'a word \<Rightarrow> 'a word" where
  "e_phoff mem ehdr_p = rd_addr mem (ehdr_p + (if lp64 TYPE('a) then 32 else 28))"

definition e_phnum :: "('a::len word \<Rightarrow> 8 word) \<Rightarrow> 'a word \<Rightarrow> 16 word" where
  "e_phnum mem ehdr_p = rd16 mem (ehdr_p + (if lp64 TYPE('a) then 56 else 44))"

definition sizeof_Phdr :: "'a::len itself \<Rightarrow> nat" where
  "sizeof_Phdr t = (if lp64 t then 56 else 32)"

definition p_type :: "('a::len word \<Rightarrow> 8 word) \<Rightarrow> 'a word \<Rightarrow> 32 word" where
  "p_type mem p = rd32 mem p"

definition p_flags :: "('a::len word \<Rightarrow> 8 word) \<Rightarrow> 'a word \<Rightarrow> 32 word" where
  "p_flags mem p = rd32 mem (p + (if lp64 TYPE('a) then 4 else 24))"

definition p_offset :: "('a::len word \<Rightarrow> 8 word) \<Rightarrow> 'a word \<Rightarrow> 'a word" where
  "p_offset mem p = rd_addr mem (p + (if lp64 TYPE('a) then 8 else 4))"

definition p_vaddr :: "('a::len word \<Rightarrow> 8 word) \<Rightarrow> 'a word \<Rightarrow> 'a word" where
  "p_vaddr mem p = rd_addr mem (p + (if lp64 TYPE('a) then 16 else 8))"

definition p_memsz :: "('a::len word \<Rightarrow> 8 word) \<Rightarrow> 'a word \<Rightarrow> 'a word" where
  "p_memsz mem p = rd_addr mem (p + (if lp64 TYPE('a) then 40 else 20))"

definition sizeof_Dyn :: "'a::len itself \<Rightarrow> nat" where
  "sizeof_Dyn t = 2 * addr_bytes t"

definition d_tag :: "('a::len word \<Rightarrow> 8 word) \<Rightarrow> 'a word \<Rightarrow> 'a word" where
  "d_tag mem p = rd_addr mem p"

definition d_un :: "('a::len word \<Rightarrow> 8 word) \<Rightarrow> 'a word \<Rightarrow> 'a word" where
  "d_un mem p = rd_addr mem (p + of_nat (addr_bytes TYPE('a)))"

definition sizeof_Sym :: "'a::len itself \<Rightarrow> nat" where
  "sizeof_Sym t = (if lp64 t then 24 else 16)"

definition st_name :: "('a::len word \<Rightarrow> 8 word) \<Rightarrow> 'a word \<Rightarrow> 32 word" where
  "st_name mem p = rd32 mem p"

definition r_offset_at :: "('a::len word \<Rightarrow> 8 word) \<Rightarrow> 'a word \<Rightarrow> 'a word" where
  "r_offset_at mem p = rd_addr mem p"

definition r_info_at :: "('a::len word \<Rightarrow> 8 word) \<Rightarrow> 'a word \<Rightarrow> 'a word" where
  "r_info_at mem p = rd_addr mem (p + of_nat (addr_bytes TYPE('a)))"

text \<open>Constants of \<^verbatim>\<open><elf.h>\<close> and \<^verbatim>\<open><sys/mman.h>\<close> (system headers), with their ABI values.\<close>

definition PT_LOAD :: "32 word" where "PT_LOAD = 1"
definition PT_DYNAMIC :: "32 word" where "PT_DYNAMIC = 2"

definition PF_X :: "32 word" where "PF_X = 1"
definition PF_W :: "32 word" where "PF_W = 2"
definition PF_R :: "32 word" where "PF_R = 4"

definition PROT_READ :: "32 word" where "PROT_READ = 1"
definition PROT_WRITE :: "32 word" where "PROT_WRITE = 2"
definition PROT_EXEC :: "32 word" where "PROT_EXEC = 4"

definition DT_PLTRELSZ :: "'a::len word" where "DT_PLTRELSZ = 2"
definition DT_HASH :: "'a::len word" where "DT_HASH = 4"
definition DT_STRTAB :: "'a::len word" where "DT_STRTAB = 5"
definition DT_SYMTAB :: "'a::len word" where "DT_SYMTAB = 6"
definition DT_RELA :: "'a::len word" where "DT_RELA = 7"
definition DT_RELASZ :: "'a::len word" where "DT_RELASZ = 8"
definition DT_REL :: "'a::len word" where "DT_REL = 17"
definition DT_RELSZ :: "'a::len word" where "DT_RELSZ = 18"
definition DT_PLTREL :: "'a::len word" where "DT_PLTREL = 20"
definition DT_JMPREL :: "'a::len word" where "DT_JMPREL = 23"
definition DT_GNU_HASH :: "'a::len word" where "DT_GNU_HASH = 0x6ffffef5"
definition DT_ANDROID_REL :: "'a::len word" where "DT_ANDROID_REL = 0x6000000f"
definition DT_ANDROID_RELSZ :: "'a::len word" where "DT_ANDROID_RELSZ = 0x60000010"
definition DT_ANDROID_RELA :: "'a::len word" where "DT_ANDROID_RELA = 0x60000011"
definition DT_ANDROID_RELASZ :: "'a::len word" where "DT_ANDROID_RELASZ = 0x60000012"

definition PAGE_SIZE :: "'a::len word" where "PAGE_SIZE = 4096"
definition PAGE_MASK :: "'a::len word" where "PAGE_MASK = NOT (PAGE_SIZE - 1)"

definition PAGE_START :: "'a::len word \<Rightarrow> 'a word" where
  "PAGE_START addr = addr AND PAGE_MASK"

definition PAGE_END :: "'a::len word \<Rightarrow> 'a word" where
  "PAGE_END addr = (addr AND PAGE_MASK) + PAGE_SIZE"

definition PF_TO_PROT :: "32 word \<Rightarrow> 32 word" where
  "PF_TO_PROT v = (if v AND PF_R \<noteq> 0 then PROT_READ else 0)
               OR (if v AND PF_W \<noteq> 0 then PROT_WRITE else 0)
               OR (if v AND PF_X \<noteq> 0 then PROT_EXEC else 0)"

text \<open>
  \<^verbatim>\<open>R_GENERIC_JUMP_SLOT\<close>, \<^verbatim>\<open>R_GENERIC_GLOB_DAT\<close>, \<^verbatim>\<open>R_GENERIC_ABS\<close>: the AArch64
  relocation types \<open>1026\<close>, \<open>1025\<close>, \<open>257\<close> or the ARM ones \<open>22\<close>, \<open>21\<close>, \<open>2\<close>; and the
  split of \<open>r_info\<close> by \<^verbatim>\<open>ELF64_R_SYM\<close>/\<^verbatim>\<open>ELF64_R_TYPE\<close> or \<^verbatim>\<open>ELF32_R_SYM\<close>/\<^verbatim>\<open>ELF32_R_TYPE\<close>.
\<close>

definition R_GENERIC_JUMP_SLOT :: "'a::len word" where
  "R_GENERIC_JUMP_SLOT = (if lp64 TYPE('a) then 1026 else 22)"

definition R_GENERIC_GLOB_DAT :: "'a::len word" where
  "R_GENERIC_GLOB_DAT = (if lp64 TYPE('a) then 1025 else 21)"

definition R_GENERIC_ABS :: "'a::len word" where
  "R_GENERIC_ABS = (if lp64 TYPE('a) then 257 else 2)"

definition elf_r_sym :: "'a::len word \<Rightarrow> 32 word" where
  "elf_r_sym info = (if lp64 TYPE('a) then ucast (drop_bit 32 info) else ucast (drop_bit 8 info))"

definition elf_r_type :: "'a::len word \<Rightarrow> 'a word" where
  "elf_r_type info = (if lp64 TYPE('a) then info AND 0xffffffff else info AND 0xff)"

section \<open>The image view \<^verbatim>\<open>xh_elf_t\<close>\<close>

text \<open>
  The fields of \<^verbatim>\<open>xh_elf_t\<close> (declared in \<^verbatim>\<open>xh_elf.h\<close>) as the source uses them;
  pointers are addresses, \<^verbatim>\<open>pathname\<close> is the caller's pointer.
\<close>

record 'w xh_elf_t =
  pathname :: 'w
  base_addr :: 'w
  bias_addr :: 'w
  ehdr :: 'w
  phdr :: 'w
  dyn :: 'w
  dyn_sz :: "32 word"
  strtab :: 'w
  symtab :: 'w
  relplt :: 'w
  relplt_sz :: "32 word"
  reldyn :: 'w
  reldyn_sz :: "32 word"
  relandroid :: 'w
  relandroid_sz :: "32 word"
  bucket :: 'w
  bucket_cnt :: "32 word"
  chain :: 'w
  chain_cnt :: "32 word"
  symoffset :: "32 word"
  bloom :: 'w
  bloom_sz :: "32 word"
  bloom_shift :: "32 word"
  is_use_rela :: int
  is_use_gnu_hash :: int

text \<open>The view after \<^verbatim>\<open>memset(self, 0, sizeof(xh_elf_t))\<close>.\<close>

definition xh_elf_zeroed :: "'a::len word xh_elf_t" where
  "xh_elf_zeroed =
     \<lparr> pathname = 0, base_addr = 0, bias_addr = 0, ehdr = 0, phdr = 0, dyn = 0, dyn_sz = 0,
       strtab = 0, symtab = 0, relplt = 0, relplt_sz = 0, reldyn = 0, reldyn_sz = 0,
       relandroid = 0, relandroid_sz = 0, bucket = 0, bucket_cnt = 0, chain = 0, chain_cnt = 0,
       symoffset = 0, bloom = 0, bloom_sz = 0, bloom_shift = 0,
       is_use_rela = 0, is_use_gnu_hash = 0 \<rparr>"

section \<open>ELF header check\<close>

text \<open>
  \<^verbatim>\<open>xh_elf_check_elfheader\<close>.  \<^verbatim>\<open>ELFMAG\<close> is \<open>0x7f 'E' 'L' 'F'\<close>; \<^verbatim>\<open>EI_CLASS\<close>,
  \<^verbatim>\<open>EI_DATA\<close>, \<^verbatim>\<open>EI_VERSION\<close> are the indices 4, 5, 6; \<^verbatim>\<open>ELFCLASS32\<close> = 1,
  \<^verbatim>\<open>ELFCLASS64\<close> = 2, \<^verbatim>\<open>ELFDATA2LSB\<close> = 1, \<^verbatim>\<open>EV_CURRENT\<close> = 1, \<^verbatim>\<open>ET_EXEC\<close> = 2,
  \<^verbatim>\<open>ET_DYN\<close> = 3, \<^verbatim>\<open>EM_ARM\<close> = 40, \<^verbatim>\<open>EM_AARCH64\<close> = 183.  The header is read through
  the pointer \<^verbatim>\<open>base_addr\<close>.
\<close>

definition xh_elf_check_elfheader :: "('a::len word \<Rightarrow> 8 word) \<Rightarrow> 'a word \<Rightarrow> error + unit" where
  "xh_elf_check_elfheader mem base =
     (if base = 0 then Inl TRAP_NULL_DEREF
      else if \<not> (e_ident mem base 0 = 0x7f \<and> e_ident mem base 1 = 0x45 \<and>
                  e_ident mem base 2 = 0x4c \<and> e_ident mem base 3 = 0x46) then Inl XH_ERRNO_FORMAT
      else if (if lp64 TYPE('a) then 2 else 1) \<noteq> e_ident mem base 4 then Inl XH_ERRNO_FORMAT
      else if 1 \<noteq> e_ident mem base 5 then Inl XH_ERRNO_FORMAT
      else if 1 \<noteq> e_ident mem base 6 then Inl XH_ERRNO_FORMAT
      else if 2 \<noteq> e_type mem base \<and> 3 \<noteq> e_type mem base then Inl XH_ERRNO_FORMAT
      else if (if lp64 TYPE('a) then 183 else 40) \<noteq> e_machine mem base then Inl XH_ERRNO_FORMAT
      else if 1 \<noteq> e_version mem base then Inl XH_ERRNO_FORMAT
      else Inr ())"

section \<open>Image view initialisation\<close>

text \<open>
  The loop of \<^verbatim>\<open>xh_elf_get_first_segment_by_type\<close> from the header at \<open>p\<close>, with
  \<open>limit = self->phdr + e_phnum\<close>.  The pointer reaches \<open>limit\<close> after \<open>e_phnum\<close>
  steps at the latest (and \<open>p < limit\<close> fails at once when \<open>limit\<close> has wrapped
  around), so the loop is unfolded at most \<open>e_phnum\<close> times: \<open>k\<close> counts the headers
  left.  The result is the pointer found, or null.
\<close>

fun first_segment_loop ::
  "('a::len word \<Rightarrow> 8 word) \<Rightarrow> 32 word \<Rightarrow> 'a word \<Rightarrow> nat \<Rightarrow> 'a word \<Rightarrow> 'a word" where
  "first_segment_loop mem ty limit 0 p = 0"
| "first_segment_loop mem ty limit (Suc k) p =
     (if p < limit
      then if p_type mem p = ty then p
           else first_segment_loop mem ty limit k (p + of_nat (sizeof_Phdr TYPE('a)))
      else 0)"

definition xh_elf_get_first_segment_by_type ::
  "('a::len word \<Rightarrow> 8 word) \<Rightarrow> 'a word xh_elf_t \<Rightarrow> 32 word \<Rightarrow> 'a word" where
  "xh_elf_get_first_segment_by_type mem self ty =
     first_segment_loop mem ty
       (phdr self + ucast (e_phnum mem (ehdr self)) * of_nat (sizeof_Phdr TYPE('a)))
       (unat (e_phnum mem (ehdr self))) (phdr self)"

text \<open>The body of the \<^verbatim>\<open>switch(dyn->d_tag)\<close> for the dynamic entry at \<open>p\<close>.\<close>

definition dyn_entry ::
  "('a::len word \<Rightarrow> 8 word) \<Rightarrow> 'a word \<Rightarrow> 'a word xh_elf_t \<Rightarrow> 'a word xh_elf_t" where
  "dyn_entry mem p self =
     (let tag = d_tag mem p; v = d_un mem p; raw = bias_addr self + v in
      if tag = DT_STRTAB then self\<lparr> strtab := bias_addr self + v \<rparr>
      else if tag = DT_SYMTAB then self\<lparr> symtab := bias_addr self + v \<rparr>
      else if tag = DT_PLTREL then self\<lparr> is_use_rela := (if v = DT_RELA then 1 else 0) \<rparr>
      else if tag = DT_JMPREL then self\<lparr> relplt := bias_addr self + v \<rparr>
      else if tag = DT_PLTRELSZ then self\<lparr> relplt_sz := ucast v \<rparr>
      else if tag = DT_REL \<or> tag = DT_RELA then self\<lparr> reldyn := bias_addr self + v \<rparr>
      else if tag = DT_RELSZ \<or> tag = DT_RELASZ then self\<lparr> reldyn_sz := ucast v \<rparr>
      else if tag = DT_ANDROID_REL \<or> tag = DT_ANDROID_RELA
           then self\<lparr> relandroid := bias_addr self + v \<rparr>
      else if tag = DT_ANDROID_RELSZ \<or> tag = DT_ANDROID_RELASZ
           then self\<lparr> relandroid_sz := ucast v \<rparr>
      else if tag = DT_HASH
           then self\<lparr> bucket_cnt := rd32 mem raw,
                      chain_cnt := rd32 mem (raw + 4),
                      bucket := raw + 8,
                      chain := raw + 8 + 4 * ucast (rd32 mem raw) \<rparr>
      else if tag = DT_GNU_HASH
           then self\<lparr> bucket_cnt := rd32 mem raw,
                      symoffset := rd32 mem (raw + 4),
                      bloom_sz := rd32 mem (raw + 8),
                      bloom_shift := rd32 mem (raw + 12),
                      bloom := raw + 16,
                      bucket := raw + 16 + of_nat (addr_bytes TYPE('a)) * ucast (rd32 mem (raw + 8)),
                      chain := raw + 16 + of_nat (addr_bytes TYPE('a)) * ucast (rd32 mem (raw + 8))
                                 + 4 * ucast (rd32 mem raw),
                      is_use_gnu_hash := 1 \<rparr>
      else self)"

text \<open>
  The loop \<^verbatim>\<open>for(; dyn < dyn_end; dyn++)\<close> over at most
  \<^verbatim>\<open>dyn_sz / sizeof(ElfW(Dyn))\<close> entries, as for the program headers.
\<close>

fun dyn_loop ::
  "('a::len word \<Rightarrow> 8 word) \<Rightarrow> 'a word \<Rightarrow> nat \<Rightarrow> 'a word \<Rightarrow> 'a word xh_elf_t \<Rightarrow> 'a word xh_elf_t" where
  "dyn_loop mem dyn_end 0 p self = self"
| "dyn_loop mem dyn_end (Suc k) p self =
     (if p < dyn_end
      then dyn_loop mem dyn_end k (p + of_nat (sizeof_Dyn TYPE('a))) (dyn_entry mem p self)
      else self)"

text \<open>\<^verbatim>\<open>xh_elf_check\<close>: non-zero (\<open>True\<close>) when a required field is missing.\<close>

definition xh_elf_check :: "'a::len word xh_elf_t \<Rightarrow> bool" where
  "xh_elf_check self =
     (if pathname self = 0 then True
      else if base_addr self = 0 then True
      else if bias_addr self = 0 then True
      else if ehdr self = 0 then True
      else if phdr self = 0 then True
      else if strtab self = 0 then True
      else if symtab self = 0 then True
      else if bucket self = 0 then True
      else if chain self = 0 then True
      else if is_use_gnu_hash self = 1 \<and> bloom self = 0 then True
      else False)"

text \<open>
  \<^verbatim>\<open>xh_elf_init\<close>: the status and the view as the call leaves it.  \<^verbatim>\<open>self->ehdr\<close>
  is \<open>base\<close> itself and \<open>lhdr\<close> is the result of the search for \<^verbatim>\<open>PT_LOAD\<close>; both
  are read through without a test, which traps when the pointer is null.
\<close>

definition xh_elf_init ::
  "('a::len word \<Rightarrow> 8 word) \<Rightarrow> 'a word xh_elf_t \<Rightarrow> 'a word \<Rightarrow> 'a word
     \<Rightarrow> (error + unit) \<times> 'a word xh_elf_t" where
  "xh_elf_init mem self base path =
     (if pathname self \<noteq> 0 then (Inr (), self)
      else if path = 0 then (Inl XH_ERRNO_INVAL, self)
      else let self = self\<lparr> base_addr := base, ehdr := base \<rparr> in
      if ehdr self = 0 then (Inl TRAP_NULL_DEREF, self)
      else let self = self\<lparr> phdr := base + e_phoff mem (ehdr self) \<rparr>;
               lhdr = xh_elf_get_first_segment_by_type mem self PT_LOAD in
      if lhdr = 0 then (Inl TRAP_NULL_DEREF, self)
      else if p_offset mem lhdr \<noteq> 0 then (Inl XH_ERRNO_FORMAT, self)
      else let self = self\<lparr> bias_addr := base_addr self - p_vaddr mem lhdr \<rparr>;
               dhdr = xh_elf_get_first_segment_by_type mem self PT_DYNAMIC in
      if dhdr = 0 then (Inl XH_ERRNO_FORMAT, self)
      else let self = self\<lparr> dyn := bias_addr self + p_vaddr mem dhdr,
                             dyn_sz := ucast (p_memsz mem dhdr) \<rparr>;
               cnt = unat (dyn_sz self) div sizeof_Dyn TYPE('a);
               self = dyn_loop mem (dyn self + of_nat cnt * of_nat (sizeof_Dyn TYPE('a))) cnt
                        (dyn self) self;
               self = self\<lparr> pathname := path \<rparr> in
      if relandroid self \<noteq> 0 \<and>
         (relandroid_sz self < 4 \<or>
          mem (relandroid self) \<noteq> 0x41 \<or> mem (relandroid self + 1) \<noteq> 0x50 \<or>
          mem (relandroid self + 2) \<noteq> 0x53 \<or> mem (relandroid self + 3) \<noteq> 0x32)
      then (Inl XH_ERRNO_FORMAT, self)
      else let self = (if relandroid self \<noteq> 0
                       then self\<lparr> relandroid := relandroid self + 4,
                                  relandroid_sz := relandroid_sz self - 4 \<rparr>
                       else self) in
      if xh_elf_check self then (Inl XH_ERRNO_FORMAT, xh_elf_zeroed)
      else (Inr (), self))"

section \<open>Symbol lookup\<close>

text \<open>
  A symbol name is the list of the bytes of the C string (the string ends at the
  first zero byte, if the list has one).  \<open>c_str_eq mem p name\<close> is
  \<^verbatim>\<open>0 == strcmp(name, p)\<close> for the string stored at \<open>p\<close>.
\<close>

fun xh_elf_hash_loop :: "32 word \<Rightarrow> 8 word list \<Rightarrow> 32 word" where
  "xh_elf_hash_loop h [] = h"
| "xh_elf_hash_loop h (c # cs) =
     (if c = 0 then h
      else let h1 = push_bit 4 h + ucast c;
               g = h1 AND 0xf0000000;
               h2 = h1 XOR g;
               h3 = h2 XOR drop_bit 24 g
           in xh_elf_hash_loop h3 cs)"

definition xh_elf_hash :: "8 word list \<Rightarrow> 32 word" where
  "xh_elf_hash name = xh_elf_hash_loop 0 name"

fun xh_elf_gnu_hash_loop :: "32 word \<Rightarrow> 8 word list \<Rightarrow> 32 word" where
  "xh_elf_gnu_hash_loop h [] = h"
| "xh_elf_gnu_hash_loop h (c # cs) =
     (if c = 0 then h else xh_elf_gnu_hash_loop (h + (push_bit 5 h + ucast c)) cs)"

definition xh_elf_gnu_hash :: "8 word list \<Rightarrow> 32 word" where
  "xh_elf_gnu_hash name = xh_elf_gnu_hash_loop 5381 name"

fun c_str_eq :: "('a::len word \<Rightarrow> 8 word) \<Rightarrow> 'a word \<Rightarrow> 8 word list \<Rightarrow> bool" where
  "c_str_eq mem p [] = (mem p = 0)"
| "c_str_eq mem p (c # cs) =
     (if c = 0 then mem p = 0 else mem p = c \<and> c_str_eq mem (p + 1) cs)"

text \<open>\<^verbatim>\<open>self->strtab + self->symtab[i].st_name\<close>.\<close>

definition sym_name_ptr :: "('a::len word \<Rightarrow> 8 word) \<Rightarrow> 'a word xh_elf_t \<Rightarrow> 32 word \<Rightarrow> 'a word" where
  "sym_name_ptr mem self i =
     strtab self + ucast (st_name mem (symtab self + ucast i * of_nat (sizeof_Sym TYPE('a))))"

text \<open>
  \<^verbatim>\<open>xh_elf_hash_lookup\<close>: the chain walk from index \<open>i\<close>, which need not end, and
  the entry through the bucket.  A remainder by a zero \<^verbatim>\<open>bucket_cnt\<close> traps.
\<close>

partial_function (option) hash_chain_loop ::
  "('a::len word \<Rightarrow> 8 word) \<Rightarrow> 'a word xh_elf_t \<Rightarrow> 8 word list \<Rightarrow> 32 word
     \<Rightarrow> (error + 32 word) option" where
  "hash_chain_loop mem self symbol i =
     (if i = 0 then Some (Inl XH_ERRNO_NOTFND)
      else if c_str_eq mem (sym_name_ptr mem self i) symbol then Some (Inr i)
      else hash_chain_loop mem self symbol (rd32 mem (chain self + 4 * ucast i)))"

definition xh_elf_hash_lookup ::
  "('a::len word \<Rightarrow> 8 word) \<Rightarrow> 'a word xh_elf_t \<Rightarrow> 8 word list \<Rightarrow> (error + 32 word) option" where
  "xh_elf_hash_lookup mem self symbol =
     (if bucket_cnt self = 0 then Some (Inl TRAP_DIV_ZERO)
      else hash_chain_loop mem self symbol
             (rd32 mem (bucket self + 4 * ucast (xh_elf_hash symbol mod bucket_cnt self))))"

text \<open>
  \<^verbatim>\<open>xh_elf_gnu_hash_lookup_def\<close>: the \<^verbatim>\<open>while(1)\<close> chain walk from index \<open>i\<close>, and
  the bloom filter and bucket tests before it.  \<^verbatim>\<open>elfclass_bits\<close> is
  \<^verbatim>\<open>sizeof(ElfW(Addr)) * 8\<close>.  A remainder by a zero \<^verbatim>\<open>bloom_sz\<close> or \<^verbatim>\<open>bucket_cnt\<close>
  traps, and so does \<^verbatim>\<open>hash >> bloom_shift\<close> for a shift of 32 or more.
\<close>

partial_function (option) gnu_chain_loop ::
  "('a::len word \<Rightarrow> 8 word) \<Rightarrow> 'a word xh_elf_t \<Rightarrow> 8 word list \<Rightarrow> 32 word \<Rightarrow> 32 word
     \<Rightarrow> (error + 32 word) option" where
  "gnu_chain_loop mem self symbol hash i =
     (if (hash OR 1) = (rd32 mem (chain self + 4 * ucast (i - symoffset self)) OR 1) \<and>
         c_str_eq mem (sym_name_ptr mem self i) symbol
      then Some (Inr i)
      else if rd32 mem (chain self + 4 * ucast (i - symoffset self)) AND 1 \<noteq> 0
      then Some (Inl XH_ERRNO_NOTFND)
      else gnu_chain_loop mem self symbol hash (i + 1))"

definition xh_elf_gnu_hash_lookup_def ::
  "('a::len word \<Rightarrow> 8 word) \<Rightarrow> 'a word xh_elf_t \<Rightarrow> 8 word list \<Rightarrow> (error + 32 word) option" where
  "xh_elf_gnu_hash_lookup_def mem self symbol =
     (let hash = xh_elf_gnu_hash symbol;
          elfclass_bits = (of_nat (addr_bytes TYPE('a) * 8) :: 32 word)
      in if bloom_sz self = 0 then Some (Inl TRAP_DIV_ZERO)
         else if 32 \<le> unat (bloom_shift self) then Some (Inl TRAP_UNDEF_SHIFT)
         else let w = rd_addr mem (bloom self + of_nat (addr_bytes TYPE('a)) *
                                     ucast ((hash div elfclass_bits) mod bloom_sz self));
                  mask = (push_bit (unat (hash mod elfclass_bits)) 1
                          OR push_bit (unat (drop_bit (unat (bloom_shift self)) hash
                                             mod elfclass_bits)) 1 :: 'a word)
              in if w AND mask \<noteq> mask then Some (Inl XH_ERRNO_NOTFND)
                 else if bucket_cnt self = 0 then Some (Inl TRAP_DIV_ZERO)
                 else let i = rd32 mem (bucket self + 4 * ucast (hash mod bucket_cnt self))
                      in if i < symoffset self then Some (Inl XH_ERRNO_NOTFND)
                         else gnu_chain_loop mem self symbol hash i)"

text \<open>\<^verbatim>\<open>xh_elf_gnu_hash_lookup_undef\<close>: the loop \<^verbatim>\<open>for(i = 0; i < self->symoffset; i++)\<close> from \<open>i\<close>.\<close>

function gnu_undef_loop ::
  "('a::len word \<Rightarrow> 8 word) \<Rightarrow> 'a word xh_elf_t \<Rightarrow> 8 word list \<Rightarrow> 32 word \<Rightarrow> error + 32 word" where
  "gnu_undef_loop mem self symbol i =
     (if i < symoffset self
      then if c_str_eq mem (sym_name_ptr mem self i) symbol then Inr i
           else gnu_undef_loop mem self symbol (i + 1)
      else Inl XH_ERRNO_NOTFND)"
  by pat_completeness auto
termination
proof (relation "measure (\<lambda>(mem, self, symbol, i). unat (symoffset self) - unat i)")
  show "wf (measure (\<lambda>(mem :: 'a word \<Rightarrow> 8 word, self :: 'a word xh_elf_t,
                       symbol :: 8 word list, i :: 32 word). unat (symoffset self) - unat i))"
    by simp
next
  fix mem :: "'a word \<Rightarrow> 8 word" and self :: "'a word xh_elf_t"
    and symbol :: "8 word list" and i :: "32 word"
  assume "i < symoffset self"
  then have "unat (symoffset self) - unat (i + 1) < unat (symoffset self) - unat i"
    by unat_arith
  then show "((mem, self, symbol, i + 1), (mem, self, symbol, i))
      \<in> measure (\<lambda>(mem, self, symbol, i). unat (symoffset self) - unat i)"
    by simp
qed

definition xh_elf_gnu_hash_lookup_undef ::
  "('a::len word \<Rightarrow> 8 word) \<Rightarrow> 'a word xh_elf_t \<Rightarrow> 8 word list \<Rightarrow> error + 32 word" where
  "xh_elf_gnu_hash_lookup_undef mem self symbol = gnu_undef_loop mem self symbol 0"

text \<open>
  \<^verbatim>\<open>xh_elf_gnu_hash_lookup\<close>: the defined-symbol lookup, then the undefined-symbol
  scan when the first did not return \<open>0\<close>.  \<open>None\<close> is a chain walk that does not
  end; a trap in the first lookup ends the call.
\<close>

definition xh_elf_gnu_hash_lookup ::
  "('a::len word \<Rightarrow> 8 word) \<Rightarrow> 'a word xh_elf_t \<Rightarrow> 8 word list \<Rightarrow> (error + 32 word) option" where
  "xh_elf_gnu_hash_lookup mem self symbol =
     (case xh_elf_gnu_hash_lookup_def mem self symbol of
        None \<Rightarrow> None
      | Some (Inr i) \<Rightarrow> Some (Inr i)
      | Some (Inl e) \<Rightarrow>
          if is_trap e then Some (Inl e)
          else (case xh_elf_gnu_hash_lookup_undef mem self symbol of
                  Inr i \<Rightarrow> Some (Inr i)
                | Inl e' \<Rightarrow> Some (Inl XH_ERRNO_NOTFND)))"

definition xh_elf_find_symidx_by_name ::
  "('a::len word \<Rightarrow> 8 word) \<Rightarrow> 'a word xh_elf_t \<Rightarrow> 8 word list \<Rightarrow> (error + 32 word) option" where
  "xh_elf_find_symidx_by_name mem self symbol =
     (if is_use_gnu_hash self \<noteq> 0 then xh_elf_gnu_hash_lookup mem self symbol
      else xh_elf_hash_lookup mem self symbol)"

section \<open>Hook engine\<close>

text \<open>
  What a hook call can change: the bytes of the address space (the slots are
  written through \<^verbatim>\<open>void **\<close>, and so is the caller's variable behind
  \<^verbatim>\<open>old_func\<close>), and the protection of its pages.  \<open>page_prot\<close> is the protection
  last set for each page by \<^verbatim>\<open>mprotect\<close>, \<open>mprotect_ok\<close> says for which pages the
  system call succeeds.  The symbol name is the caller's string and the iterators
  are local variables of \<^verbatim>\<open>xh_elf_hook\<close>: no slot lies in them.
\<close>

record 'w proc_state =
  memory :: "'w \<Rightarrow> 8 word"
  page_prot :: "'w \<Rightarrow> 32 word"
  mprotect_ok :: "'w \<Rightarrow> bool"

text \<open>The loop of \<^verbatim>\<open>xh_elf_get_mem_access\<close> over the program headers, from the header at \<open>p\<close>.\<close>

fun mem_access_loop ::
  "('a::len word \<Rightarrow> 8 word) \<Rightarrow> 'a word xh_elf_t \<Rightarrow> 'a word \<Rightarrow> 'a word \<Rightarrow> nat \<Rightarrow> 'a word
     \<Rightarrow> error + 32 word" where
  "mem_access_loop mem self addr limit 0 p = Inl XH_ERRNO_NOTFND"
| "mem_access_loop mem self addr limit (Suc k) p =
     (if p < limit
      then if p_type mem p = PT_LOAD \<and>
              PAGE_START (bias_addr self + p_vaddr mem p) \<le> addr \<and>
              addr < PAGE_END (bias_addr self + p_vaddr mem p + p_memsz mem p)
           then Inr (p_flags mem p)
           else mem_access_loop mem self addr limit k (p + of_nat (sizeof_Phdr TYPE('a)))
      else Inl XH_ERRNO_NOTFND)"

definition xh_elf_get_mem_access ::
  "('a::len word \<Rightarrow> 8 word) \<Rightarrow> 'a word xh_elf_t \<Rightarrow> 'a word \<Rightarrow> error + 32 word" where
  "xh_elf_get_mem_access mem self addr =
     mem_access_loop mem self addr
       (phdr self + ucast (e_phnum mem (ehdr self)) * of_nat (sizeof_Phdr TYPE('a)))
       (unat (e_phnum mem (ehdr self))) (phdr self)"

text \<open>\<^verbatim>\<open>xh_elf_set_mem_access\<close>: \<open>True\<close> when \<^verbatim>\<open>mprotect\<close> returned \<open>0\<close>.\<close>

definition xh_elf_set_mem_access ::
  "'a::len word \<Rightarrow> 32 word \<Rightarrow> 'a word proc_state \<Rightarrow> bool \<times> 'a word proc_state" where
  "xh_elf_set_mem_access addr prots st =
     (if mprotect_ok st (PAGE_START addr)
      then (True, st\<lparr> page_prot := (page_prot st)(PAGE_START addr := PF_TO_PROT prots) \<rparr>)
      else (False, st))"

text \<open>
  \<^verbatim>\<open>xh_elf_replace_function\<close>; \<open>old_func\<close> is the address of the caller's variable,
  \<open>0\<close> for a null pointer.
\<close>

definition xh_elf_replace_function ::
  "'a::len word xh_elf_t \<Rightarrow> 'a word \<Rightarrow> 'a word \<Rightarrow> 'a word
     \<Rightarrow> 'a word proc_state \<Rightarrow> (error + unit) \<times> 'a word proc_state" where
  "xh_elf_replace_function self addr new_func old_func st =
     (if rd_addr (memory st) addr = new_func then (Inr (), st)
      else case xh_elf_get_mem_access (memory st) self addr of
             Inl e \<Rightarrow> (Inl e, st)
           | Inr prots \<Rightarrow>
               (case xh_elf_set_mem_access addr ((prots OR PF_W) AND NOT PF_X) st of
                  (False, st1) \<Rightarrow> (Inl XH_ERRNO_UNKNOWN, st1)
                | (True, st1) \<Rightarrow>
                    let old_addr = rd_addr (memory st1) addr;
                        st2 = (if old_func \<noteq> 0
                               then st1\<lparr> memory := wr_addr (memory st1) old_func old_addr \<rparr>
                               else st1)
                    in (Inr (), st2\<lparr> memory := wr_addr (memory st2) addr new_func \<rparr>)))"

text \<open>
  \<^verbatim>\<open>xh_elf_find_and_replace_func\<close>: the status, the value of \<^verbatim>\<open>found\<close> and the
  state.  \<open>rel_common\<close> points into the image or at the record of the packed
  iterator; both record types begin with \<open>r_offset\<close> and \<open>r_info\<close>.
\<close>

definition reloc_r_info :: "('a::len word \<Rightarrow> 8 word) \<Rightarrow> 'a word reloc_ptr \<Rightarrow> 'a word" where
  "reloc_r_info mem rel_common =
     (case rel_common of InImage p \<Rightarrow> r_info_at mem p
                       | PackedRela r \<Rightarrow> rela_r_info r
                       | PackedRel r \<Rightarrow> rel_r_info r)"

definition reloc_r_offset :: "('a::len word \<Rightarrow> 8 word) \<Rightarrow> 'a word reloc_ptr \<Rightarrow> 'a word" where
  "reloc_r_offset mem rel_common =
     (case rel_common of InImage p \<Rightarrow> r_offset_at mem p
                       | PackedRela r \<Rightarrow> rela_r_offset r
                       | PackedRel r \<Rightarrow> rel_r_offset r)"

definition reloc_matches ::
  "('a::len word \<Rightarrow> 8 word) \<Rightarrow> 32 word \<Rightarrow> 'a word reloc_ptr \<Rightarrow> bool" where
  "reloc_matches mem symidx rel_common =
     ((ucast (elf_r_sym (reloc_r_info mem rel_common)) :: 'a word) = ucast symidx \<and>
      (elf_r_type (reloc_r_info mem rel_common) = R_GENERIC_JUMP_SLOT \<or>
       elf_r_type (reloc_r_info mem rel_common) = R_GENERIC_GLOB_DAT \<or>
       elf_r_type (reloc_r_info mem rel_common) = R_GENERIC_ABS))"

definition xh_elf_find_and_replace_func ::
  "'a::len word xh_elf_t \<Rightarrow> 'a word \<Rightarrow> 'a word \<Rightarrow> 32 word
     \<Rightarrow> 'a word reloc_ptr \<Rightarrow> 'a word proc_state
     \<Rightarrow> (error + unit) \<times> bool \<times> 'a word proc_state" where
  "xh_elf_find_and_replace_func self new_func old_func symidx rel_common st =
     (if reloc_matches (memory st) symidx rel_common
      then case xh_elf_replace_function self
                  (bias_addr self + reloc_r_offset (memory st) rel_common)
                  new_func old_func st of
             (r, st') \<Rightarrow> (r, True, st')
      else (Inr (), False, st))"



text \<open>
  The loops of \<^verbatim>\<open>xh_elf_hook\<close> over the plain iterator (\<open>brk\<close> for the loop over
  \<^verbatim>\<open>.rel(a).plt\<close>, which passes \<^verbatim>\<open>&found\<close> and breaks on it) and over the packed
  iterator.
\<close>

partial_function (option) hook_plain_loop ::
  "'a::len word xh_elf_t \<Rightarrow> 'a word \<Rightarrow> 'a word \<Rightarrow> 32 word \<Rightarrow> bool
     \<Rightarrow> 'a word xh_elf_plain_reloc_iterator_t \<Rightarrow> 'a word proc_state
     \<Rightarrow> ((error + unit) \<times> 'a word proc_state) option" where
  "hook_plain_loop self new_func old_func symidx brk iter st =
     (case xh_elf_plain_reloc_iterator_next iter of
        (p, iter') \<Rightarrow>
          if p = 0 then Some (Inr (), st)
          else case xh_elf_find_and_replace_func self new_func old_func symidx (InImage p) st of
                 (Inl e, found, st') \<Rightarrow> Some (Inl e, st')
               | (Inr u, found, st') \<Rightarrow>
                   if brk \<and> found then Some (Inr (), st')
                   else hook_plain_loop self new_func old_func symidx brk iter' st')"

partial_function (option) hook_packed_loop ::
  "'a::len word xh_elf_t \<Rightarrow> 'a word \<Rightarrow> 'a word \<Rightarrow> 32 word
     \<Rightarrow> 'a word xh_elf_packed_reloc_iterator_t \<Rightarrow> 'a word proc_state
     \<Rightarrow> ((error + unit) \<times> 'a word proc_state) option" where
  "hook_packed_loop self new_func old_func symidx iter st =
     (case xh_elf_packed_reloc_iterator_next (memory st) iter of
        (Inl e, iter') \<Rightarrow> Some (Inl e, st)
      | (Inr None, iter') \<Rightarrow> Some (Inr (), st)
      | (Inr (Some rel_common), iter') \<Rightarrow>
          (case xh_elf_find_and_replace_func self new_func old_func symidx rel_common st of
             (Inl e, found, st') \<Rightarrow> Some (Inl e, st')
           | (Inr u, found, st') \<Rightarrow>
               hook_packed_loop self new_func old_func symidx iter' st'))"

text \<open>
  The three walks of \<^verbatim>\<open>xh_elf_hook\<close>, in the order of the source.  The status of
  \<^verbatim>\<open>xh_elf_packed_reloc_iterator_init\<close> is not looked at, a trap in it apart.
\<close>

definition hook_regions ::
  "'a::len word xh_elf_t \<Rightarrow> 'a word \<Rightarrow> 'a word \<Rightarrow> 32 word
     \<Rightarrow> 'a word proc_state \<Rightarrow> ((error + unit) \<times> 'a word proc_state) option" where
  "hook_regions self new_func old_func symidx st =
     Option.bind
       (if relplt self \<noteq> 0
        then hook_plain_loop self new_func old_func symidx True
               (xh_elf_plain_reloc_iterator_init (relplt self) (relplt_sz self) (is_use_rela self)) st
        else Some (Inr (), st))
       (\<lambda>(r1, st1). case r1 of
          Inl e \<Rightarrow> Some (Inl e, st1)
        | Inr u \<Rightarrow>
            Option.bind
              (if reldyn self \<noteq> 0
               then hook_plain_loop self new_func old_func symidx False
                      (xh_elf_plain_reloc_iterator_init (reldyn self) (reldyn_sz self)
                         (is_use_rela self)) st1
               else Some (Inr (), st1))
              (\<lambda>(r2, st2). case r2 of
                 Inl e \<Rightarrow> Some (Inl e, st2)
               | Inr u \<Rightarrow>
                   if relandroid self \<noteq> 0
                   then case xh_elf_packed_reloc_iterator_init (memory st2) (relandroid self)
                               (relandroid_sz self) (is_use_rela self) of
                          (Inl e, iter) \<Rightarrow>
                            if is_trap e then Some (Inl e, st2)
                            else hook_packed_loop self new_func old_func symidx iter st2
                        | (Inr u, iter) \<Rightarrow>
                            hook_packed_loop self new_func old_func symidx iter st2
                   else Some (Inr (), st2)))"

text \<open>
  \<^verbatim>\<open>xh_elf_hook\<close>.  \<open>symbol\<close> is \<open>None\<close> for a null pointer.  The result is \<open>None\<close>
  when a loop does not end.
\<close>

definition xh_elf_hook ::
  "'a::len word xh_elf_t \<Rightarrow> 8 word list option \<Rightarrow> 'a word \<Rightarrow> 'a word
     \<Rightarrow> 'a word proc_state \<Rightarrow> ((error + unit) \<times> 'a word proc_state) option" where
  "xh_elf_hook self symbol new_func old_func st =
     (if pathname self = 0 then Some (Inl XH_ERRNO_ELFINIT, st)
      else case symbol of
             None \<Rightarrow> Some (Inl XH_ERRNO_INVAL, st)
           | Some name \<Rightarrow>
               if new_func = 0 then Some (Inl XH_ERRNO_INVAL, st)
               else (case xh_elf_find_symidx_by_name (memory st) self name of
                       None \<Rightarrow> None
                     | Some (Inl e) \<Rightarrow> Some (Inl e, st)
                     | Some (Inr symidx) \<Rightarrow> hook_regions self new_func old_func symidx st))"

section \<open>Concrete memories for the examples\<close>

text \<open>A byte store holding the bytes \<open>bs\<close> from address \<open>base\<close> on, and \<open>0\<close> elsewhere.\<close>

definition bytes_at :: "'a::len word \<Rightarrow> 8 word list \<Rightarrow> 'a word \<Rightarrow> 8 word" where
  "bytes_at base bs a = (if unat (a - base) < length bs then bs ! unat (a - base) else 0)"

text \<open>
  A packed stream of one relocation in a REL region: count \<open>1\<close>, initial offset
  \<open>0x10\<close>, then a group of size \<open>1\<close> with flags \<^verbatim>\<open>GROUP_HAS_ADDEND\<close> only, an offset
  delta \<open>4\<close> and an \<open>r_info\<close> of \<open>5\<close>.
\<close>

definition aps2_rel_has_addend :: "64 word \<Rightarrow> 8 word" where
  "aps2_rel_has_addend = bytes_at 0x1000 [0x01, 0x10, 0x01, 0x08, 0x04, 0x05]"

text \<open>
  A packed stream of three relocations in a RELA region: count \<open>3\<close>, initial offset
  \<open>0x10\<close>, one group of size \<open>3\<close> with flags
  \<^verbatim>\<open>GROUPED_BY_OFFSET_DELTA | GROUPED_BY_INFO | GROUP_HAS_ADDEND\<close> (\<open>11\<close>), offset delta
  \<open>8\<close>, shared \<open>r_info\<close> \<open>5\<close>, and the addend deltas \<open>1\<close>, \<open>2\<close>, \<open>3\<close>.
\<close>

definition aps2_rela_one_group :: "64 word \<Rightarrow> 8 word" where
  "aps2_rela_one_group = bytes_at 0x1000 [0x03, 0x10, 0x03, 0x0B, 0x08, 0x05, 0x01, 0x02, 0x03]"

text \<open>
  A packed stream of two relocations in a RELA region: count \<open>2\<close>, initial offset
  \<open>0x10\<close>; a group of size \<open>1\<close> with flags \<open>11\<close>, offset delta \<open>8\<close>, \<open>r_info\<close> \<open>5\<close>
  and addend delta \<open>7\<close>; then a group of size \<open>1\<close> with flags
  \<^verbatim>\<open>GROUPED_BY_OFFSET_DELTA | GROUPED_BY_INFO\<close> (\<open>3\<close>, no addend), offset delta \<open>8\<close> and
  \<open>r_info\<close> \<open>6\<close>.  \<open>aps2_rela_two_groups_mid\<close> is the iterator after the first call
  of \<^verbatim>\<open>next\<close>.
\<close>

definition aps2_rela_two_groups :: "64 word \<Rightarrow> 8 word" where
  "aps2_rela_two_groups =
     bytes_at 0x1000 [0x02, 0x10, 0x01, 0x0B, 0x08, 0x05, 0x07, 0x01, 0x03, 0x08, 0x06]"

definition aps2_rela_two_groups_mid :: "64 word xh_elf_packed_reloc_iterator_t" where
  "aps2_rela_two_groups_mid =
     \<lparr> decoder = \<lparr> dec_cur = 0x1007, dec_end = 0x100B \<rparr>,
       relocation_count = 2, group_size = 1, group_flags = 11, group_r_offset_delta = 8,
       relocation_index = 1, relocation_group_index = 1,
       rela = \<lparr> rela_r_offset = 0x18, rela_r_info = 5, rela_r_addend = 7 \<rparr>,
       rel = \<lparr> rel_r_offset = 0, rel_r_info = 0 \<rparr>,
       r_offset = 0x18, r_info = 5, r_addend = 7,
       pk_is_use_rela = 1 \<rparr>"

text \<open>
  The stream \<open>aps2_rel_has_addend\<close> with the group's flags changed to
  \<^verbatim>\<open>GROUP_HAS_ADDEND | GROUPED_BY_ADDEND\<close> (\<open>12\<close>).
\<close>

definition aps2_rel_grouped_addend :: "64 word \<Rightarrow> 8 word" where
  "aps2_rel_grouped_addend = bytes_at 0x1000 [0x01, 0x10, 0x01, 0x0C, 0x04, 0x05]"

text \<open>
  A packed stream of two relocations in a REL region, written with an addend for
  each entry: count \<open>2\<close>, initial offset \<open>0x10\<close>, one group of size \<open>2\<close> with flags
  \<^verbatim>\<open>GROUP_HAS_ADDEND\<close> only, then for each entry an offset delta \<open>4\<close>, an \<open>r_info\<close>
  of \<open>5\<close> and an addend (\<open>1\<close>, then \<open>2\<close>).
\<close>

definition aps2_rel_two_addends :: "64 word \<Rightarrow> 8 word" where
  "aps2_rel_two_addends =
     bytes_at 0x1000 [0x02, 0x10, 0x02, 0x08, 0x04, 0x05, 0x01, 0x04, 0x05, 0x02]"

subsection \<open>AArch64 images without a usable first segment\<close>

text \<open>
  Images at \<open>0x10000\<close> with \<open>e_phoff = 0x40\<close>, every byte not listed being zero.
  \<^item> \<open>no_load_image\<close>: one program header, of type \<^verbatim>\<open>PT_DYNAMIC\<close>.
  \<^item> \<open>load_offset_image\<close>: one program header, \<^verbatim>\<open>PT_LOAD\<close> with \<open>p_offset = 1\<close>.
  \<^item> \<open>no_dynamic_image\<close>: one program header, \<^verbatim>\<open>PT_LOAD\<close> with \<open>p_offset = 0\<close>
    and \<open>p_vaddr = 0\<close>.
  \<^item> \<open>empty_dynamic_image\<close>: two program headers, \<^verbatim>\<open>PT_LOAD\<close> as before and
    \<^verbatim>\<open>PT_DYNAMIC\<close> with \<open>p_vaddr = 0\<close> and \<open>p_memsz = 0\<close>.
\<close>

definition no_load_image :: "64 word \<Rightarrow> 8 word" where
  "no_load_image = (\<lambda>a. 0)(0x10020 := 0x40, 0x10038 := 1, 0x10040 := 2)"

definition load_offset_image :: "64 word \<Rightarrow> 8 word" where
  "load_offset_image = (\<lambda>a. 0)(0x10020 := 0x40, 0x10038 := 1, 0x10040 := 1, 0x10048 := 1)"

definition no_dynamic_image :: "64 word \<Rightarrow> 8 word" where
  "no_dynamic_image = (\<lambda>a. 0)(0x10020 := 0x40, 0x10038 := 1, 0x10040 := 1)"

definition empty_dynamic_image :: "64 word \<Rightarrow> 8 word" where
  "empty_dynamic_image = (\<lambda>a. 0)(0x10020 := 0x40, 0x10038 := 2, 0x10040 := 1, 0x10078 := 2)"

text \<open>
  A valid AArch64 ELF header at \<open>0x10000\<close> (type \<^verbatim>\<open>ET_DYN\<close>), and the same header
  marked big-endian.
\<close>

definition valid_header_image :: "64 word \<Rightarrow> 8 word" where
  "valid_header_image =
     bytes_at 0x10000 [0x7f, 0x45, 0x4c, 0x46, 2, 1, 1, 0, 0, 0, 0, 0, 0, 0, 0, 0,
                       3, 0, 183, 0, 1, 0, 0, 0]"

definition big_endian_header_image :: "64 word \<Rightarrow> 8 word" where
  "big_endian_header_image =
     bytes_at 0x10000 [0x7f, 0x45, 0x4c, 0x46, 2, 2, 1, 0, 0, 0, 0, 0, 0, 0, 0, 0,
                       3, 0, 183, 0, 1, 0, 0, 0]"

subsection \<open>An AArch64 image\<close>

text \<open>
  A byte store holding the listed segments (base address and bytes; the last
  listed segment that covers an address wins) and \<open>0\<close> elsewhere; and the
  little-endian bytes of a number.
\<close>

fun nth_byte :: "8 word list \<Rightarrow> nat \<Rightarrow> 8 word option" where
  "nth_byte [] n = None"
| "nth_byte (b # bs) n = (if n = 0 then Some b else nth_byte bs (n - 1))"

fun seg_scan :: "(nat \<times> 8 word list) list \<Rightarrow> nat \<Rightarrow> nat \<Rightarrow> 8 word" where
  "seg_scan segs 0 n = 0"
| "seg_scan segs (Suc k) n =
     (case segs ! k of
        (base, bs) \<Rightarrow>
          if base \<le> n
          then case nth_byte bs (n - base) of Some b \<Rightarrow> b | None \<Rightarrow> seg_scan segs k n
          else seg_scan segs k n)"

definition mem_of :: "(nat \<times> 8 word list) list \<Rightarrow> 'a::len word \<Rightarrow> 8 word" where
  "mem_of segs a = seg_scan segs (length segs) (unat a)"

definition le16 :: "16 word \<Rightarrow> 8 word list" where
  "le16 v = [ucast v, ucast (drop_bit 8 v)]"

definition le32 :: "32 word \<Rightarrow> 8 word list" where
  "le32 v = [ucast v, ucast (drop_bit 8 v), ucast (drop_bit 16 v), ucast (drop_bit 24 v)]"

definition le64 :: "64 word \<Rightarrow> 8 word list" where
  "le64 v = le32 (ucast v) @ le32 (ucast (drop_bit 32 v))"

text \<open>
  The segments of a small shared object loaded at \<open>0x10000\<close> (load bias \<open>0x10000\<close>).
  The identification bytes of its ELF header are left zero.
  \<^item> ELF header: \<open>e_phoff = 0x40\<close>, \<open>e_phnum = 2\<close>.
  \<^item> Program headers at \<open>0x10040\<close>: \<^verbatim>\<open>PT_LOAD\<close> (flags \<^verbatim>\<open>R|W\<close>, offset \<open>0\<close>, vaddr \<open>0\<close>,
    memsz \<open>0x4000\<close>) and \<^verbatim>\<open>PT_DYNAMIC\<close> (vaddr \<open>0x100\<close>, memsz \<open>0xB0\<close>).
  \<^item> Dynamic entries at \<open>0x10100\<close>: \<^verbatim>\<open>DT_STRTAB\<close>, \<^verbatim>\<open>DT_SYMTAB\<close>, \<^verbatim>\<open>DT_GNU_HASH\<close>,
    \<^verbatim>\<open>DT_PLTREL = DT_RELA\<close>, \<^verbatim>\<open>DT_JMPREL\<close>, \<^verbatim>\<open>DT_PLTRELSZ\<close>, \<^verbatim>\<open>DT_RELA\<close>, \<^verbatim>\<open>DT_RELASZ\<close>,
    \<^verbatim>\<open>DT_ANDROID_RELA\<close>, \<^verbatim>\<open>DT_ANDROID_RELASZ\<close>, \<^verbatim>\<open>DT_NULL\<close>.
  \<^item> String table at \<open>0x10200\<close>: \<open>""\<close>, \<open>"a"\<close> (offset 1), \<open>"b"\<close> (offset 3).
  \<^item> Symbol table at \<open>0x10220\<close>: symbol 0, symbol 1 named \<open>"a"\<close> (an undefined
    import), symbol 2 named \<open>"b"\<close> (defined).
  \<^item> GNU hash table at \<open>0x10280\<close>: one bucket, \<open>symoffset = 2\<close>, one bloom word
    holding the two bits of \<open>"b"\<close>, \<open>bloom_shift = 6\<close>, bucket \<open>2\<close>, chain entry the
    hash of \<open>"b"\<close>.
  \<^item> \<^verbatim>\<open>.rela.plt\<close> at \<open>0x10300\<close>, two records: \<^verbatim>\<open>JUMP_SLOT\<close> of symbol 2 for the slot
    \<open>0x3020\<close>, \<^verbatim>\<open>JUMP_SLOT\<close> of symbol 1 for the slot \<open>0x3000\<close>.
  \<^item> \<^verbatim>\<open>.rela.dyn\<close> at \<open>0x10340\<close>, two records: \<^verbatim>\<open>GLOB_DAT\<close> of symbol 1 for the slot
    \<open>0x3008\<close>, \<^verbatim>\<open>ABS64\<close> of symbol 1 for the slot \<open>0x3010\<close>.
  \<^item> The packed region at \<open>0x10380\<close>: the four bytes \<open>magic\<close>, then one relocation
    in one ungrouped group: offset \<open>0x3018\<close>, \<^verbatim>\<open>GLOB_DAT\<close> of symbol 1.
  \<^item> The five slots at \<open>0x13000\<close> .. \<open>0x13020\<close>, holding the addresses \<open>0xA000\<close> ..
    \<open>0xA020\<close>.
\<close>

definition elf_image_segments :: "8 word list \<Rightarrow> (nat \<times> 8 word list) list" where
  "elf_image_segments magic =
     [ (0x10020, le64 0x40),
       (0x10038, le16 2),
       (0x10040, le32 1 @ le32 6 @ le64 0 @ le64 0 @ le64 0 @ le64 0x4000 @ le64 0x4000 @ le64 0x1000),
       (0x10078, le32 2 @ le32 6 @ le64 0x100 @ le64 0x100 @ le64 0x100 @ le64 0xB0 @ le64 0xB0 @ le64 8),
       (0x10100, le64 5 @ le64 0x200),
       (0x10110, le64 6 @ le64 0x220),
       (0x10120, le64 0x6ffffef5 @ le64 0x280),
       (0x10130, le64 20 @ le64 7),
       (0x10140, le64 23 @ le64 0x300),
       (0x10150, le64 2 @ le64 48),
       (0x10160, le64 7 @ le64 0x340),
       (0x10170, le64 8 @ le64 48),
       (0x10180, le64 0x60000011 @ le64 0x380),
       (0x10190, le64 0x60000012 @ le64 16),
       (0x101A0, le64 0 @ le64 0),
       (0x10200, [0, 0x61, 0, 0x62, 0]),
       (0x10238, le32 1),
       (0x10250, le32 3),
       (0x10280, le32 1 @ le32 2 @ le32 1 @ le32 6 @ le64 0x1000080 @ le32 2 @ le32 0x2B607),
       (0x10300, le64 0x3020 @ le64 0x0000000200000402 @ le64 0),
       (0x10318, le64 0x3000 @ le64 0x0000000100000402 @ le64 0),
       (0x10340, le64 0x3008 @ le64 0x0000000100000401 @ le64 0),
       (0x10358, le64 0x3010 @ le64 0x0000000100000101 @ le64 0),
       (0x10380, magic @ [0x01, 0x00, 0x01, 0x00, 0x98, 0xE0, 0x00, 0x81, 0x88, 0x80, 0x80, 0x10]),
       (0x13000, le64 0xA000 @ le64 0xA008 @ le64 0xA010 @ le64 0xA018 @ le64 0xA020) ]"

definition elf_image :: "64 word \<Rightarrow> 8 word" where
  "elf_image = mem_of (elf_image_segments [0x41, 0x50, 0x53, 0x32])"

text \<open>The same image with the packed region beginning with \<open>A P S 1\<close>.\<close>

definition elf_image_aps1 :: "64 word \<Rightarrow> 8 word" where
  "elf_image_aps1 = mem_of (elf_image_segments [0x41, 0x50, 0x53, 0x31])"

text \<open>The view that \<^verbatim>\<open>xh_elf_init\<close> builds of \<open>elf_image\<close> for the pathname pointer \<open>0x500\<close>.\<close>

definition elf_image_view :: "64 word xh_elf_t" where
  "elf_image_view =
     \<lparr> pathname = 0x500, base_addr = 0x10000, bias_addr = 0x10000, ehdr = 0x10000,
       phdr = 0x10040, dyn = 0x10100, dyn_sz = 0xB0,
       strtab = 0x10200, symtab = 0x10220, relplt = 0x10300, relplt_sz = 48,
       reldyn = 0x10340, reldyn_sz = 48, relandroid = 0x10384, relandroid_sz = 12,
       bucket = 0x10298, bucket_cnt = 1, chain = 0x1029C, chain_cnt = 0,
       symoffset = 2, bloom = 0x10290, bloom_sz = 1, bloom_shift = 6,
       is_use_rela = 1, is_use_gnu_hash = 1 \<rparr>"

text \<open>
  The process before any hook: the address space holds the image, every page can
  be re-protected.
\<close>

definition elf_image_proc :: "64 word proc_state" where
  "elf_image_proc =
     \<lparr> memory = elf_image, page_prot = (\<lambda>p. 0), mprotect_ok = (\<lambda>p. True) \<rparr>"

text \<open>
  The process during and after \<open>hook(elf_image_view, "a", 0xBEEF00, &old)\<close> with the
  caller's variable \<open>old\<close> at \<open>0x20000\<close>: after the walk over \<^verbatim>\<open>.rela.plt\<close>, after
  the walk over \<^verbatim>\<open>.rela.dyn\<close>, and after the walk over the packed region.  Each
  rewrite stores the old value of the slot in \<open>old\<close> and then the new address in
  the slot; the page \<open>0x13000\<close> of the slots is left readable and writable.
  \<open>elf_image_android_start\<close> is the packed iterator right after its \<^verbatim>\<open>init\<close>.
\<close>

definition elf_image_hooked_plt :: "64 word proc_state" where
  "elf_image_hooked_plt =
     \<lparr> memory = wr_addr (wr_addr elf_image 0x20000 0xA000) 0x13000 0xBEEF00,
       page_prot = (\<lambda>p. 0)(0x13000 := 3), mprotect_ok = (\<lambda>p. True) \<rparr>"

definition elf_image_hooked_dyn :: "64 word proc_state" where
  "elf_image_hooked_dyn =
     \<lparr> memory = wr_addr (wr_addr (memory elf_image_hooked_plt) 0x20000 0xA010) 0x13010 0xBEEF00,
       page_prot = (\<lambda>p. 0)(0x13000 := 3), mprotect_ok = (\<lambda>p. True) \<rparr>"

definition elf_image_hooked :: "64 word proc_state" where
  "elf_image_hooked =
     \<lparr> memory = wr_addr (wr_addr (memory elf_image_hooked_dyn) 0x20000 0xA018) 0x13018 0xBEEF00,
       page_prot = (\<lambda>p. 0)(0x13000 := 3), mprotect_ok = (\<lambda>p. True) \<rparr>"

definition elf_image_android_start :: "64 word xh_elf_packed_reloc_iterator_t" where
  "elf_image_android_start =
     \<lparr> decoder = \<lparr> dec_cur = 0x10386, dec_end = 0x10390 \<rparr>,
       relocation_count = 1, group_size = 0, group_flags = 0, group_r_offset_delta = 0,
       relocation_index = 0, relocation_group_index = 0,
       rela = \<lparr> rela_r_offset = 0, rela_r_info = 0, rela_r_addend = 0 \<rparr>,
       rel = \<lparr> rel_r_offset = 0, rel_r_info = 0 \<rparr>,
       r_offset = 0, r_info = 0, r_addend = 0,
       pk_is_use_rela = 1 \<rparr>"

section \<open>Properties of the plain relocation iterator\<close>

lemma upt_0_2: "[0..<2] = [0, Suc 0]"
  by (simp add: numeral_2_eq_2)

lemma unat_of_nat_small: "n < 2 ^ LENGTH('a::len) \<Longrightarrow> unat (of_nat n :: 'a word) = n"
  by (simp add: unat_of_nat)

lemma unat_add_small:
  "unat (c::'a::len word) + n < 2 ^ LENGTH('a) \<Longrightarrow> unat (c + of_nat n) = unat c + n"
proof -
  assume a: "unat c + n < 2 ^ LENGTH('a)"
  then have "unat (of_nat n :: 'a word) = n" by (intro unat_of_nat_small) simp
  then show ?thesis using a by (simp add: unat_add_lem[THEN iffD1])
qed

lemma plain_reloc_yield_from:
  fixes c :: "'a::len word"
  assumes "0 < stride"
    and "stride = (if r \<noteq> 0 then sizeof_Rela TYPE('a) else sizeof_Rel TYPE('a))"
    and "unat c + m * stride < 2 ^ LENGTH('a)"
  shows "plain_reloc_yield \<lparr> it_cur = c, it_end = c + of_nat (m * stride), it_is_use_rela = r \<rparr>
       = Some (map (\<lambda>k. c + of_nat ((k + 1) * stride)) [0..<m])"
  using assms(3)
proof (induction m arbitrary: c)
  case 0
  then show ?case
    by (subst plain_reloc_yield.simps) (simp add: xh_elf_plain_reloc_iterator_next_def)
next
  case (Suc m)
  let ?c' = "c + of_nat stride"
  have b: "unat c + stride + m * stride < 2 ^ LENGTH('a)" using Suc.prems by (simp add: algebra_simps)
  have u2: "unat ?c' = unat c + stride"
    using b by (intro unat_add_small) simp
  have ue: "unat (c + of_nat (Suc m * stride)) = unat c + Suc m * stride"
    using Suc.prems by (rule unat_add_small)
  have lt: "\<not> c + of_nat (Suc m * stride) \<le> c"
    using ue assms(1) by (simp add: word_le_nat_alt)
  have nz: "?c' \<noteq> 0"
    using u2 assms(1) by (metis add_is_0 less_numeral_extra(3) unat_0)
  have e': "c + of_nat (Suc m * stride) = ?c' + of_nat (m * stride)"
    by (simp add: algebra_simps)
  have IH: "plain_reloc_yield \<lparr> it_cur = ?c', it_end = ?c' + of_nat (m * stride), it_is_use_rela = r \<rparr>
       = Some (map (\<lambda>k. ?c' + of_nat ((k + 1) * stride)) [0..<m])"
    using Suc.IH[of ?c'] b u2 by simp
  have m: "map (\<lambda>k. c + of_nat ((k + 1) * stride)) [0..<Suc m]
        = ?c' # map (\<lambda>k. ?c' + of_nat ((k + 1) * stride)) [0..<m]"
    by (simp add: upt_conv_Cons map_Suc_upt[symmetric] algebra_simps del: upt_Suc)
  have step: "xh_elf_plain_reloc_iterator_next
           \<lparr> it_cur = c, it_end = c + of_nat (Suc m * stride), it_is_use_rela = r \<rparr>
         = (?c', \<lparr> it_cur = ?c', it_end = ?c' + of_nat (m * stride), it_is_use_rela = r \<rparr>)"
    using lt assms(2) unfolding e' by (simp add: xh_elf_plain_reloc_iterator_next_def Let_def)
  show ?case
    by (subst plain_reloc_yield.simps) (simp only: step m IH prod.case nz if_False Option.bind.simps)
qed

text \<open>
  Claim C1 (what the code does where the claim asks for the records \<open>rel + k * stride\<close>,
  \<open>k = 0 .. n - 1\<close>).  For a region of \<open>n\<close> records of \<open>stride\<close> bytes that does not
  wrap around the address space, the loop over \<^verbatim>\<open>xh_elf_plain_reloc_iterator_next\<close>
  ends and yields \<open>n\<close> pointers, the \<open>k\<close>-th being \<open>rel + (k + 1) * stride\<close>: the
  first record of the array is never yielded, and the last pointer is
  \<open>rel + rel_sz\<close>, one record past the region.
\<close>

theorem plain_iterator_yields_shifted:
  fixes rel_addr :: "'a::len word"
  assumes "8 \<le> LENGTH('a)"
    and "stride = (if r \<noteq> 0 then sizeof_Rela TYPE('a) else sizeof_Rel TYPE('a))"
    and "unat rel_sz = n * stride"
    and "unat rel_addr + n * stride < 2 ^ LENGTH('a)"
  shows "plain_reloc_yield (xh_elf_plain_reloc_iterator_init rel_addr rel_sz r)
       = Some (map (\<lambda>k. rel_addr + of_nat ((k + 1) * stride)) [0..<n])"
proof -
  have "0 < LENGTH('a) div 8" using assms(1) by (simp add: div_greater_zero_iff)
  then have pos: "0 < stride"
    using assms(2) by (simp add: sizeof_Rela_def sizeof_Rel_def addr_bytes_def)
  have "ucast rel_sz = (of_nat (unat rel_sz) :: 'a word)"
    by simp
  then have "xh_elf_plain_reloc_iterator_init rel_addr rel_sz r
      = \<lparr> it_cur = rel_addr, it_end = rel_addr + of_nat (n * stride), it_is_use_rela = r \<rparr>"
    by (simp only: xh_elf_plain_reloc_iterator_init_def assms(3))
  then show ?thesis
    using plain_reloc_yield_from[OF pos assms(2) assms(4)] by simp
qed

theorem plain_iterator_yields_shifted_witness:
  "plain_reloc_yield (xh_elf_plain_reloc_iterator_init (0x1000 :: 64 word) 48 1) = Some [0x1018, 0x1030]"
proof -
  have a: "8 \<le> LENGTH(64)" by simp
  have b: "(24::nat) = (if (1::int) \<noteq> 0 then sizeof_Rela TYPE(64) else sizeof_Rel TYPE(64))"
    by (simp add: sizeof_Rela_def addr_bytes_def)
  have c: "unat (48 :: 32 word) = 2 * 24" by simp
  have d: "unat (0x1000 :: 64 word) + 2 * 24 < 2 ^ LENGTH(64)" by simp
  show ?thesis
    using plain_iterator_yields_shifted[OF a b c d] by (simp add: upt_0_2)
qed

section \<open>Properties of the SLEB128 decoder\<close>


















section \<open>Properties of the packed relocation iterator\<close>



lemma sleb128_decode_many_numeral:
  "sleb128_decode_many mem (numeral k) d =
     (case xh_elf_sleb128_decoder_next mem d of
        (r, d') \<Rightarrow> (case sleb128_decode_many mem (pred_numeral k) d' of (rs, d'') \<Rightarrow> (r # rs, d'')))"
  by (simp add: numeral_eq_Suc)

lemma packed_next_many_numeral:
  "packed_next_many mem (numeral k) s =
     (case xh_elf_packed_reloc_iterator_next mem s of
        (r, s') \<Rightarrow> (case packed_next_many mem (pred_numeral k) s' of (rs, s'') \<Rightarrow> (r # rs, s'')))"
  by (simp add: numeral_eq_Suc)

lemma packed_read_Inr:
  "xh_elf_sleb128_decoder_next mem (decoder s) = (Inr v, d)
     \<Longrightarrow> packed_read mem store s = (Inr (), store v (s\<lparr> decoder := d \<rparr>))"
  by (simp add: packed_read_def)

lemma sleb128_decode_many_Cons:
  "sleb128_decode_many mem (Suc k) d = (Inr v # rs, d')
     \<Longrightarrow> \<exists>d1. xh_elf_sleb128_decoder_next mem d = (Inr v, d1) \<and> sleb128_decode_many mem k d1 = (rs, d')"
  by (auto split: prod.splits)


lemma word_small_neq0:
  assumes "32 \<le> LENGTH('a::len)" "0 < n" "n < 2 ^ 32"
  shows "(of_nat n :: 'a word) \<noteq> 0"
proof -
  have "(2::nat) ^ 32 \<le> 2 ^ LENGTH('a)" using assms(1) by (intro power_increasing) auto
  then have "n < 2 ^ LENGTH('a)" using assms(3) by linarith
  then have "unat (of_nat n :: 'a word) = n" by (rule unat_of_nat_small)
  then show ?thesis using assms(2) by (metis less_numeral_extra(3) unat_0)
qed

lemma flags11:
  assumes "32 \<le> LENGTH('a::len)"
  shows "(11 :: 'a word) AND RELOCATION_GROUPED_BY_OFFSET_DELTA_FLAG \<noteq> 0"
    "(11 :: 'a word) AND RELOCATION_GROUPED_BY_INFO_FLAG \<noteq> 0"
    "(11 :: 'a word) AND RELOCATION_GROUP_HAS_ADDEND_FLAG \<noteq> 0"
    "(11 :: 'a word) AND RELOCATION_GROUPED_BY_ADDEND_FLAG = 0"
  using word_small_neq0[OF assms, of 2] word_small_neq0[OF assms, of 1] word_small_neq0[OF assms, of 8]
  by (simp_all add: RELOCATION_GROUPED_BY_INFO_FLAG_def RELOCATION_GROUPED_BY_OFFSET_DELTA_FLAG_def
      RELOCATION_GROUPED_BY_ADDEND_FLAG_def RELOCATION_GROUP_HAS_ADDEND_FLAG_def)

text \<open>Reading the header of a group with flags 11.\<close>

lemma read_group_fields_flags11:
  assumes L: "32 \<le> LENGTH('a::len)"
    and dec: "sleb128_decode_many mem 4 (decoder s) = ([Inr gs, Inr 11, Inr delta, Inr info], d')"
  shows "xh_elf_packed_reloc_iterator_read_group_fields mem (s :: 'a word xh_elf_packed_reloc_iterator_t)
       = (Inr (), s\<lparr> decoder := d', group_size := gs, group_flags := 11, group_r_offset_delta := delta,
                      r_info := info, relocation_group_index := 0 \<rparr>)"
proof -
  from dec obtain d1 d2 d3 where
    1: "xh_elf_sleb128_decoder_next mem (decoder s) = (Inr gs, d1)" and
    2: "xh_elf_sleb128_decoder_next mem d1 = (Inr 11, d2)" and
    3: "xh_elf_sleb128_decoder_next mem d2 = (Inr delta, d3)" and
    4: "xh_elf_sleb128_decoder_next mem d3 = (Inr info, d')"
    by (auto simp: numeral_eq_Suc split: prod.splits)
  show ?thesis
    unfolding xh_elf_packed_reloc_iterator_read_group_fields_def
    by (simp add: or_return_def packed_read_def 1 2 3 4 flags11[OF L])
qed


lemma packed_next_in_group:
  fixes s :: "'a::len word xh_elf_packed_reloc_iterator_t"
  assumes L: "32 \<le> LENGTH('a)"
    and fl: "group_flags s = 11" and ur: "pk_is_use_rela s \<noteq> 0"
    and gi: "relocation_group_index s \<noteq> group_size s"
    and ix: "relocation_index s < relocation_count s"
    and dec: "xh_elf_sleb128_decoder_next mem (decoder s) = (Inr a, d1)"
  shows "xh_elf_packed_reloc_iterator_next mem s =
     (Inr (Some (PackedRela \<lparr> rela_r_offset = r_offset s + group_r_offset_delta s, rela_r_info = r_info s,
                          rela_r_addend = r_addend s + a \<rparr>)),
      s\<lparr> decoder := d1, r_offset := r_offset s + group_r_offset_delta s, r_addend := r_addend s + a,
         relocation_index := relocation_index s + 1,
         relocation_group_index := relocation_group_index s + 1,
         rela := \<lparr> rela_r_offset = r_offset s + group_r_offset_delta s, rela_r_info = r_info s,
                   rela_r_addend = r_addend s + a \<rparr> \<rparr>)"
  using gi ix ur flags11[OF L]
  by (simp add: xh_elf_packed_reloc_iterator_next_def packed_next_fields_def or_return_def
      packed_read_def dec fl not_le[symmetric] Let_def)

lemma packed_next_first:
  fixes s :: "'a::len word xh_elf_packed_reloc_iterator_t"
  assumes L: "32 \<le> LENGTH('a)"
    and ur: "pk_is_use_rela s \<noteq> 0"
    and gi: "relocation_group_index s = group_size s"
    and ix: "relocation_index s < relocation_count s"
    and dec: "sleb128_decode_many mem 4 (decoder s) = ([Inr gs, Inr 11, Inr delta, Inr info], d4)"
    and dec1: "xh_elf_sleb128_decoder_next mem d4 = (Inr a, d5)"
  shows "xh_elf_packed_reloc_iterator_next mem s =
     (Inr (Some (PackedRela \<lparr> rela_r_offset = r_offset s + delta, rela_r_info = info,
                          rela_r_addend = r_addend s + a \<rparr>)),
      s\<lparr> decoder := d5, group_size := gs, group_flags := 11, group_r_offset_delta := delta,
         r_info := info, r_offset := r_offset s + delta, r_addend := r_addend s + a,
         relocation_index := relocation_index s + 1,
         relocation_group_index := 1,
         rela := \<lparr> rela_r_offset = r_offset s + delta, rela_r_info = info,
                   rela_r_addend = r_addend s + a \<rparr> \<rparr>)"
  using gi ix ur flags11[OF L]
  by (simp add: xh_elf_packed_reloc_iterator_next_def packed_next_fields_def or_return_def
      read_group_fields_flags11[OF L dec] packed_read_def dec1 not_le[symmetric] Let_def)

lemma map_upt_Suc_shift: "map f [0..<Suc m] = f 0 # map (\<lambda>j. f (Suc j)) [0..<m]"
  by (simp add: upt_conv_Cons map_Suc_upt[symmetric] del: upt_Suc)

lemma of_nat_word_less:
  assumes "k < n" "n < 2 ^ LENGTH('a::len)"
  shows "(of_nat k :: 'a word) < of_nat n"
proof -
  have "unat (of_nat k :: 'a word) = k" "unat (of_nat n :: 'a word) = n"
    using assms by (simp_all add: unat_of_nat_small)
  then show ?thesis using assms(1) by (simp add: word_less_nat_alt)
qed

lemma packed_in_group_run:
  fixes s :: "'a::len word xh_elf_packed_reloc_iterator_t"
  assumes L: "32 \<le> LENGTH('a)" and n: "n < 2 ^ LENGTH('a)"
  shows "group_flags s = 11 \<Longrightarrow> pk_is_use_rela s \<noteq> 0 \<Longrightarrow>
     relocation_count s = of_nat n \<Longrightarrow> group_size s = of_nat n \<Longrightarrow>
     relocation_index s = of_nat k \<Longrightarrow> relocation_group_index s = of_nat k \<Longrightarrow>
     k + length rest = n \<Longrightarrow>
     sleb128_decode_many mem (length rest) (decoder s) = (map Inr rest, d') \<Longrightarrow>
     fst (packed_next_many mem (Suc (length rest)) s) =
       map (\<lambda>j. Inr (Some (PackedRela \<lparr> rela_r_offset = r_offset s + of_nat (j + 1) * group_r_offset_delta s,
                                     rela_r_info = r_info s,
                                     rela_r_addend = r_addend s + sum_list (take (j + 1) rest) \<rparr>)))
           [0..<length rest] @ [Inr None]"
proof (induction rest arbitrary: s k)
  case Nil
  then show ?case by (simp add: xh_elf_packed_reloc_iterator_next_def)
next
  case (Cons a rest)
  from Cons.prems(8) obtain d1 where
    d1: "xh_elf_sleb128_decoder_next mem (decoder s) = (Inr a, d1)" and
    dr: "sleb128_decode_many mem (length rest) d1 = (map Inr rest, d')"
    by (auto split: prod.splits)
  have kn: "k < n" using Cons.prems(7) by simp
  have ix: "relocation_index s < relocation_count s"
    using of_nat_word_less[OF kn n] Cons.prems by simp
  have gi: "relocation_group_index s \<noteq> group_size s"
    using of_nat_word_less[OF kn n] Cons.prems by auto
  let ?r = "\<lparr> rela_r_offset = r_offset s + group_r_offset_delta s, rela_r_info = r_info s,
                          rela_r_addend = r_addend s + a \<rparr>"
  let ?s1 = "s\<lparr> decoder := d1, r_offset := r_offset s + group_r_offset_delta s, r_addend := r_addend s + a,
         relocation_index := relocation_index s + 1,
         relocation_group_index := relocation_group_index s + 1,
         rela := ?r \<rparr>"
  have step: "xh_elf_packed_reloc_iterator_next mem s = (Inr (Some (PackedRela ?r)), ?s1)"
    using packed_next_in_group[OF L Cons.prems(1) Cons.prems(2) gi ix d1] .
  have IH: "fst (packed_next_many mem (Suc (length rest)) ?s1) =
       map (\<lambda>j. Inr (Some (PackedRela \<lparr> rela_r_offset = r_offset ?s1 + of_nat (j + 1) * group_r_offset_delta ?s1,
                                     rela_r_info = r_info ?s1,
                                     rela_r_addend = r_addend ?s1 + sum_list (take (j + 1) rest) \<rparr>)))
           [0..<length rest] @ [Inr None]"
    using Cons.prems dr by (intro Cons.IH[where k = "Suc k"]) simp_all
  have "fst (packed_next_many mem (Suc (length (a # rest))) s)
      = Inr (Some (PackedRela ?r)) # fst (packed_next_many mem (Suc (length rest)) ?s1)"
    using step by (simp add: split_beta del: packed_next_many.simps(2))
      (simp add: step split_beta)
  also have "\<dots> = map (\<lambda>j. Inr (Some (PackedRela \<lparr> rela_r_offset = r_offset s + of_nat (j + 1) * group_r_offset_delta s,
                                     rela_r_info = r_info s,
                                     rela_r_addend = r_addend s + sum_list (take (j + 1) (a # rest)) \<rparr>)))
           [0..<length (a # rest)] @ [Inr None]"
    unfolding IH length_Cons map_upt_Suc_shift
    by (simp add: algebra_simps del: upt_Suc)
  finally show ?case .
qed

lemma packed_read_group_flags:
  "packed_read mem store s = (r, s') \<Longrightarrow> (\<And>v t. group_flags (store v t) = group_flags t) \<Longrightarrow>
     group_flags s' = group_flags s"
  by (auto simp: packed_read_def split: prod.splits sum.splits)

lemma packed_read_r_addend:
  "packed_read mem store s = (r, s') \<Longrightarrow> (\<And>v t. r_addend (store v t) = r_addend t) \<Longrightarrow>
     r_addend s' = r_addend s"
  by (auto simp: packed_read_def split: prod.splits sum.splits)

lemma read_group_fields_clamp:
  assumes "xh_elf_packed_reloc_iterator_read_group_fields mem s = (Inr (), s')"
    and "group_flags s' AND RELOCATION_GROUP_HAS_ADDEND_FLAG = 0"
  shows "r_addend s' = 0"
  using assms
  unfolding xh_elf_packed_reloc_iterator_read_group_fields_def or_return_def
  by (auto split: prod.splits sum.splits if_splits
      dest!: packed_read_group_flags)

lemma packed_next_fields_clamp:
  assumes nf: "packed_next_fields mem s = (Inr (), t)"
    and gi: "relocation_group_index s = group_size s"
    and fl: "group_flags t AND RELOCATION_GROUP_HAS_ADDEND_FLAG = 0"
  shows "r_addend t = 0"
proof -
  from nf gi obtain s1 where
    h: "xh_elf_packed_reloc_iterator_read_group_fields mem s = (Inr (), s1)"
    by (auto simp: packed_next_fields_def or_return_def split: prod.splits sum.splits)
  from nf gi h obtain s2 where
    o: "(if group_flags s1 AND RELOCATION_GROUPED_BY_OFFSET_DELTA_FLAG \<noteq> 0
         then (Inr (), s1\<lparr> r_offset := r_offset s1 + group_r_offset_delta s1 \<rparr>)
         else packed_read mem (\<lambda>v s. s\<lparr> r_offset := r_offset s + v \<rparr>) s1) = (Inr (), s2)"
    by (auto simp: packed_next_fields_def or_return_def split: prod.splits sum.splits)
  have s2: "group_flags s2 = group_flags s1" "r_addend s2 = r_addend s1"
    using o by (auto split: if_splits dest: packed_read_group_flags packed_read_r_addend)
  from nf gi h o obtain s3 where
    i: "(if group_flags s2 AND RELOCATION_GROUPED_BY_INFO_FLAG = 0
         then packed_read mem (\<lambda>v s. s\<lparr> r_info := v \<rparr>) s2
         else (Inr (), s2)) = (Inr (), s3)"
    by (auto simp: packed_next_fields_def or_return_def split: prod.splits sum.splits)
  have s3: "group_flags s3 = group_flags s2" "r_addend s3 = r_addend s2"
    using i by (auto split: if_splits dest: packed_read_group_flags packed_read_r_addend)
  from nf gi h o i obtain s4 where
    a: "(if pk_is_use_rela s3 \<noteq> 0 \<and>
            group_flags s3 AND RELOCATION_GROUP_HAS_ADDEND_FLAG \<noteq> 0 \<and>
            group_flags s3 AND RELOCATION_GROUPED_BY_ADDEND_FLAG = 0
         then packed_read mem (\<lambda>v s. s\<lparr> r_addend := r_addend s + v \<rparr>) s3
         else (Inr (), s3)) = (Inr (), s4)"
    and t: "t = s4\<lparr> relocation_index := relocation_index s4 + 1,
                     relocation_group_index := relocation_group_index s4 + 1 \<rparr>"
    by (auto simp: packed_next_fields_def or_return_def split: prod.splits sum.splits)
  have s4: "group_flags s4 = group_flags s3"
    using a by (auto split: if_splits dest: packed_read_group_flags)
  have f1: "group_flags s1 AND RELOCATION_GROUP_HAS_ADDEND_FLAG = 0"
    using fl t s4 s3 s2 by simp
  then have "r_addend s1 = 0" using h by (rule read_group_fields_clamp[rotated])
  moreover have "s4 = s3" using a f1 s3 s2 by simp
  ultimately show ?thesis using t s3 s2 by simp
qed

lemma packed_next_clamp:
  assumes "xh_elf_packed_reloc_iterator_next mem s = (Inr (Some (PackedRela r)), s')"
    and "relocation_group_index s = group_size s"
    and "group_flags s' AND RELOCATION_GROUP_HAS_ADDEND_FLAG = 0"
  shows "rela_r_addend r = 0"
  using assms
  by (auto simp: xh_elf_packed_reloc_iterator_next_def Let_def
      split: if_splits prod.splits sum.splits dest: packed_next_fields_clamp)

lemma aps2_rela_one_group_decode:
  "sleb128_decode_many aps2_rela_one_group 9 (xh_elf_sleb128_decoder_init 0x1000 9)
     = (map Inr [3, 0x10, 3, 11, 8, 5, 1, 2, 3], \<lparr> dec_cur = 0x1009, dec_end = 0x1009 \<rparr>)"
  by (simp add: sleb128_decode_many_numeral xh_elf_sleb128_decoder_init_def
      xh_elf_sleb128_decoder_next_def aps2_rela_one_group_def bytes_at_def Let_def)

lemma aps2_rela_two_groups_first:
  "xh_elf_packed_reloc_iterator_next aps2_rela_two_groups
     (snd (xh_elf_packed_reloc_iterator_init aps2_rela_two_groups 0x1000 11 1))
   = (Inr (Some (PackedRela \<lparr> rela_r_offset = 0x18, rela_r_info = 5, rela_r_addend = 7 \<rparr>)),
      aps2_rela_two_groups_mid)"
  by (simp add: xh_elf_packed_reloc_iterator_init_def xh_elf_packed_reloc_iterator_next_def
      packed_next_fields_def xh_elf_packed_reloc_iterator_read_group_fields_def or_return_def
      packed_read_def xh_elf_sleb128_decoder_init_def xh_elf_sleb128_decoder_next_def
      aps2_rela_two_groups_def aps2_rela_two_groups_mid_def bytes_at_def Let_def
      RELOCATION_GROUPED_BY_INFO_FLAG_def RELOCATION_GROUPED_BY_OFFSET_DELTA_FLAG_def
      RELOCATION_GROUPED_BY_ADDEND_FLAG_def RELOCATION_GROUP_HAS_ADDEND_FLAG_def)

lemma aps2_rela_two_groups_second:
  "xh_elf_packed_reloc_iterator_next aps2_rela_two_groups aps2_rela_two_groups_mid
   = (Inr (Some (PackedRela \<lparr> rela_r_offset = 0x20, rela_r_info = 6, rela_r_addend = 0 \<rparr>)),
      aps2_rela_two_groups_mid\<lparr> decoder := \<lparr> dec_cur = 0x100B, dec_end = 0x100B \<rparr>,
         group_flags := 3, r_info := 6, r_offset := 0x20, r_addend := 0,
         relocation_index := 2,
         rela := \<lparr> rela_r_offset = 0x20, rela_r_info = 6, rela_r_addend = 0 \<rparr> \<rparr>)"
  by (simp add: xh_elf_packed_reloc_iterator_next_def
      packed_next_fields_def xh_elf_packed_reloc_iterator_read_group_fields_def or_return_def
      packed_read_def xh_elf_sleb128_decoder_next_def
      aps2_rela_two_groups_def aps2_rela_two_groups_mid_def bytes_at_def Let_def word_le_nat_alt
      RELOCATION_GROUPED_BY_INFO_FLAG_def RELOCATION_GROUPED_BY_OFFSET_DELTA_FLAG_def
      RELOCATION_GROUPED_BY_ADDEND_FLAG_def RELOCATION_GROUP_HAS_ADDEND_FLAG_def)

text \<open>
  Claim C6.  Let the stream of a RELA region (\<open>is_use_rela\<close> non-zero) decode to the
  relocation count \<open>n\<close>, the initial offset \<open>off0\<close>, and one group of size \<open>n\<close> with
  flags \<^verbatim>\<open>GROUPED_BY_OFFSET_DELTA | GROUPED_BY_INFO | GROUP_HAS_ADDEND\<close> (\<open>11\<close>), the
  offset delta \<open>delta\<close>, the shared \<open>info\<close> and the per-entry addend deltas
  \<open>addends\<close>.  Then \<open>n + 1\<close> calls of \<^verbatim>\<open>xh_elf_packed_reloc_iterator_next\<close> after
  \<^verbatim>\<open>init\<close> return exactly \<open>n\<close> RELA records and then \<^verbatim>\<open>NULL\<close>; the \<open>k\<close>-th record
  (\<open>k = 0 .. n - 1\<close>) has \<open>r_offset = off0 + (k + 1) * delta\<close>, \<open>r_info = info\<close> and
  \<open>r_addend\<close> the sum of the first \<open>k + 1\<close> addend deltas.  And whenever a call of
  \<^verbatim>\<open>next\<close> reads a group header whose flags lack \<^verbatim>\<open>GROUP_HAS_ADDEND\<close>, the running
  \<open>r_addend\<close> and the addend of the record it returns are zero.
\<close>

theorem packed_iterator_single_group:
  fixes rel_addr :: "'a::len word"
  shows "(32 \<le> LENGTH('a) \<and> n < 2 ^ LENGTH('a) \<and> use_rela \<noteq> 0 \<and> length addends = n \<and>
          sleb128_decode_many mem (6 + n) (xh_elf_sleb128_decoder_init rel_addr rel_sz)
            = (map Inr ([of_nat n, off0, of_nat n, 11, delta, info] @ addends), d')
         \<longrightarrow>
          fst (packed_next_many mem (Suc n)
                (snd (xh_elf_packed_reloc_iterator_init mem rel_addr rel_sz use_rela)))
          = map (\<lambda>k. Inr (Some (PackedRela \<lparr> rela_r_offset = off0 + of_nat (k + 1) * delta,
                                         rela_r_info = info,
                                         rela_r_addend = sum_list (take (k + 1) addends) \<rparr>))) [0..<n]
            @ [Inr None])
     \<and> (xh_elf_packed_reloc_iterator_next mem s = (Inr (Some (PackedRela r)), s') \<and>
          relocation_group_index s = group_size s \<and>
          group_flags s' AND RELOCATION_GROUP_HAS_ADDEND_FLAG = 0
         \<longrightarrow> r_addend s' = 0 \<and> rela_r_addend r = 0)"
proof (intro conjI impI)
  assume asm: "32 \<le> LENGTH('a) \<and> n < 2 ^ LENGTH('a) \<and> use_rela \<noteq> 0 \<and> length addends = n \<and>
          sleb128_decode_many mem (6 + n) (xh_elf_sleb128_decoder_init rel_addr rel_sz)
            = (map Inr ([of_nat n, off0, of_nat n, 11, delta, info] @ addends), d')"
  then have L: "32 \<le> LENGTH('a)" and n: "n < 2 ^ LENGTH('a)" and ur: "use_rela \<noteq> 0"
    and len: "length addends = n"
    and dec: "sleb128_decode_many mem (6 + n) (xh_elf_sleb128_decoder_init rel_addr rel_sz)
            = (map Inr ([of_nat n, off0, of_nat n, 11, delta, info] @ addends), d')"
    by simp_all

  let ?d0 = "xh_elf_sleb128_decoder_init rel_addr rel_sz"
  from dec obtain d1 d2 where
    1: "xh_elf_sleb128_decoder_next mem ?d0 = (Inr (of_nat n), d1)" and
    2: "xh_elf_sleb128_decoder_next mem d1 = (Inr off0, d2)" and
    rest: "sleb128_decode_many mem (4 + n) d2 = (map Inr ([of_nat n, 11, delta, info] @ addends), d')"
    by (auto simp: numeral_eq_Suc split: prod.splits)
  define s0 :: "'a word xh_elf_packed_reloc_iterator_t" where
    "s0 = \<lparr> decoder = d2,
       relocation_count = of_nat n, group_size = 0, group_flags = 0, group_r_offset_delta = 0,
       relocation_index = 0, relocation_group_index = 0,
       rela = \<lparr> rela_r_offset = 0, rela_r_info = 0, rela_r_addend = 0 \<rparr>,
       rel = \<lparr> rel_r_offset = 0, rel_r_info = 0 \<rparr>,
       r_offset = off0, r_info = 0, r_addend = 0,
       pk_is_use_rela = use_rela \<rparr>"
  have init: "xh_elf_packed_reloc_iterator_init mem rel_addr rel_sz use_rela = (Inr (), s0)"
    by (simp add: xh_elf_packed_reloc_iterator_init_def or_return_def packed_read_def 1 2 s0_def)
  show "fst (packed_next_many mem (Suc n)
                (snd (xh_elf_packed_reloc_iterator_init mem rel_addr rel_sz use_rela)))
       = map (\<lambda>k. Inr (Some (PackedRela \<lparr> rela_r_offset = off0 + of_nat (k + 1) * delta,
                                      rela_r_info = info,
                                      rela_r_addend = sum_list (take (k + 1) addends) \<rparr>))) [0..<n]
         @ [Inr None]"
  proof (cases addends)
    case Nil
    then have "n = 0" using len by simp
    then show ?thesis
      by (simp add: init xh_elf_packed_reloc_iterator_next_def s0_def)
  next
    case (Cons a as)
    then have npos: "0 < n" and nas: "n = Suc (length as)" using len by auto
    from rest Cons nas obtain d6 d7 where
      hdr: "sleb128_decode_many mem 4 d2 = ([Inr (of_nat n), Inr 11, Inr delta, Inr info], d6)" and
      a: "xh_elf_sleb128_decoder_next mem d6 = (Inr a, d7)" and
      as: "sleb128_decode_many mem (length as) d7 = (map Inr as, d')"
      by (auto simp: numeral_eq_Suc split: prod.splits)
    let ?r = "\<lparr> rela_r_offset = off0 + delta, rela_r_info = info, rela_r_addend = a \<rparr>"
    define s1 where "s1 = s0\<lparr> decoder := d7, group_size := of_nat n, group_flags := 11,
         group_r_offset_delta := delta,
         r_info := info, r_offset := off0 + delta, r_addend := a,
         relocation_index := 1, relocation_group_index := 1, rela := ?r \<rparr>"
    have ix: "relocation_index s0 < relocation_count s0"
      using of_nat_word_less[OF npos n] by (simp add: s0_def)
    have first: "xh_elf_packed_reloc_iterator_next mem s0 = (Inr (Some (PackedRela ?r)), s1)"
      using packed_next_first[of s0 mem "of_nat n" delta info d6 a d7, OF L _ _ ix] hdr a ur
      by (simp add: s0_def s1_def)
    have run: "fst (packed_next_many mem (Suc (length as)) s1) =
       map (\<lambda>j. Inr (Some (PackedRela \<lparr> rela_r_offset = r_offset s1 + of_nat (j + 1) * group_r_offset_delta s1,
                                     rela_r_info = r_info s1,
                                     rela_r_addend = r_addend s1 + sum_list (take (j + 1) as) \<rparr>)))
           [0..<length as] @ [Inr None]"
      using ur as nas
      by (intro packed_in_group_run[OF L n, where k = 1]) (simp_all add: s1_def s0_def)
    have "fst (packed_next_many mem (Suc n) s0)
        = Inr (Some (PackedRela ?r)) # fst (packed_next_many mem (Suc (length as)) s1)"
      unfolding nas by (simp add: first split_beta)
    also have "\<dots> = map (\<lambda>k. Inr (Some (PackedRela \<lparr> rela_r_offset = off0 + of_nat (k + 1) * delta,
                                      rela_r_info = info,
                                      rela_r_addend = sum_list (take (k + 1) addends) \<rparr>))) [0..<n]
         @ [Inr None]"
      unfolding run nas map_upt_Suc_shift Cons
      by (simp add: s1_def s0_def algebra_simps del: upt_Suc)
    finally show ?thesis by (simp add: init)
  qed
next
  assume a: "xh_elf_packed_reloc_iterator_next mem s = (Inr (Some (PackedRela r)), s') \<and>
                  relocation_group_index s = group_size s \<and>
                  group_flags s' AND RELOCATION_GROUP_HAS_ADDEND_FLAG = 0"
  then show "rela_r_addend r = 0" by (auto dest: packed_next_clamp)
  from a show "r_addend s' = 0"
    by (auto simp: xh_elf_packed_reloc_iterator_next_def Let_def
      split: if_splits prod.splits sum.splits dest: packed_next_fields_clamp)
qed


theorem packed_iterator_single_group_witness:
  "fst (packed_next_many aps2_rela_one_group 4
         (snd (xh_elf_packed_reloc_iterator_init aps2_rela_one_group 0x1000 9 1)))
     = [Inr (Some (PackedRela \<lparr> rela_r_offset = 0x18, rela_r_info = 5, rela_r_addend = 1 \<rparr>)),
        Inr (Some (PackedRela \<lparr> rela_r_offset = 0x20, rela_r_info = 5, rela_r_addend = 3 \<rparr>)),
        Inr (Some (PackedRela \<lparr> rela_r_offset = 0x28, rela_r_info = 5, rela_r_addend = 6 \<rparr>)),
        Inr None]
   \<and> r_addend aps2_rela_two_groups_mid = 7
   \<and> fst (xh_elf_packed_reloc_iterator_next aps2_rela_two_groups aps2_rela_two_groups_mid)
     = Inr (Some (PackedRela \<lparr> rela_r_offset = 0x20, rela_r_info = 6, rela_r_addend = 0 \<rparr>))
   \<and> r_addend (snd (xh_elf_packed_reloc_iterator_next aps2_rela_two_groups aps2_rela_two_groups_mid)) = 0"
proof -
  have l: "[0..<3] = [0, 1, 2]" by (simp add: upt_conv_Cons)
  have one: "fst (packed_next_many aps2_rela_one_group 4
         (snd (xh_elf_packed_reloc_iterator_init aps2_rela_one_group 0x1000 9 1)))
     = [Inr (Some (PackedRela \<lparr> rela_r_offset = 0x18, rela_r_info = 5, rela_r_addend = 1 \<rparr>)),
        Inr (Some (PackedRela \<lparr> rela_r_offset = 0x20, rela_r_info = 5, rela_r_addend = 3 \<rparr>)),
        Inr (Some (PackedRela \<lparr> rela_r_offset = 0x28, rela_r_info = 5, rela_r_addend = 6 \<rparr>)),
        Inr None]"
    using packed_iterator_single_group[where 'a = 64 and n = 3 and use_rela = 1
        and addends = "[1, 2, 3]" and mem = aps2_rela_one_group and rel_addr = "0x1000" and rel_sz = 9
        and ?off0.0 = "0x10" and delta = 8 and info = 5
        and d' = "\<lparr> dec_cur = 0x1009, dec_end = 0x1009 \<rparr>"]
      aps2_rela_one_group_decode
    by (simp add: l)
  let ?s2 = "aps2_rela_two_groups_mid\<lparr> decoder := \<lparr> dec_cur = 0x100B, dec_end = 0x100B \<rparr>,
         group_flags := 3, r_info := 6, r_offset := 0x20, r_addend := 0,
         relocation_index := 2,
         rela := \<lparr> rela_r_offset = 0x20, rela_r_info = 6, rela_r_addend = 0 \<rparr> \<rparr>"
  have gi: "relocation_group_index aps2_rela_two_groups_mid = group_size aps2_rela_two_groups_mid"
    by (simp add: aps2_rela_two_groups_mid_def)
  have fl: "group_flags ?s2 AND RELOCATION_GROUP_HAS_ADDEND_FLAG = 0"
    by (simp add: RELOCATION_GROUP_HAS_ADDEND_FLAG_def)
  have two: "r_addend ?s2 = 0
       \<and> rela_r_addend \<lparr> rela_r_offset = 0x20 :: 64 word, rela_r_info = 6, rela_r_addend = 0 \<rparr> = 0"
    using packed_iterator_single_group[where 'a = 64 and mem = aps2_rela_two_groups
        and s = aps2_rela_two_groups_mid
        and r = "\<lparr> rela_r_offset = 0x20, rela_r_info = 6, rela_r_addend = 0 \<rparr>"
        and s' = ?s2, THEN conjunct2, THEN mp,
        OF conjI[OF aps2_rela_two_groups_second conjI[OF gi fl]]] .
  have m7: "r_addend aps2_rela_two_groups_mid = 7"
    by (simp add: aps2_rela_two_groups_mid_def)
  have nx: "fst (xh_elf_packed_reloc_iterator_next aps2_rela_two_groups aps2_rela_two_groups_mid)
     = Inr (Some (PackedRela \<lparr> rela_r_offset = 0x20, rela_r_info = 6, rela_r_addend = 0 \<rparr>))"
    by (simp add: aps2_rela_two_groups_second)
  have z: "r_addend (snd (xh_elf_packed_reloc_iterator_next aps2_rela_two_groups aps2_rela_two_groups_mid)) = 0"
    using two by (simp add: aps2_rela_two_groups_second)
  from one m7 nx z show ?thesis by blast
qed

text \<open>
  Claim C5 (it fails).  In a REL region (\<open>is_use_rela\<close> zero) a group whose flags have
  \<^verbatim>\<open>GROUP_HAS_ADDEND\<close> without \<^verbatim>\<open>GROUPED_BY_ADDEND\<close> is not rejected: for the stream
  \<open>aps2_rel_has_addend\<close> the header is read, the group's flags are \<open>8\<close>, and
  \<^verbatim>\<open>next\<close> returns a REL record and then \<^verbatim>\<open>NULL\<close> at the end of the stream.  The
  addend that each entry of such a group carries is not read: in
  \<open>aps2_rel_two_addends\<close> the addend \<open>1\<close> of the first entry is taken for the offset
  delta of the second, and the second record comes out as offset \<open>0x15\<close>, info
  \<open>4\<close>, where the stream encodes offset \<open>0x18\<close>, info \<open>5\<close>.  With
  \<^verbatim>\<open>GROUPED_BY_ADDEND\<close> also set (\<open>aps2_rel_grouped_addend\<close>) the header is rejected
  with \<^verbatim>\<open>XH_ERRNO_FORMAT\<close> and \<^verbatim>\<open>next\<close> returns \<^verbatim>\<open>NULL\<close>.
\<close>

theorem packed_rel_has_addend_accepted:
  "fst (packed_next_many aps2_rel_has_addend 2
         (snd (xh_elf_packed_reloc_iterator_init aps2_rel_has_addend 0x1000 6 0)))
     = [Inr (Some (PackedRel \<lparr> rel_r_offset = 0x14, rel_r_info = 5 \<rparr>)), Inr None]
   \<and> group_flags (snd (packed_next_many aps2_rel_has_addend 1
         (snd (xh_elf_packed_reloc_iterator_init aps2_rel_has_addend 0x1000 6 0))))
     = RELOCATION_GROUP_HAS_ADDEND_FLAG
   \<and> fst (packed_next_many aps2_rel_two_addends 3
         (snd (xh_elf_packed_reloc_iterator_init aps2_rel_two_addends 0x1000 10 0)))
     = [Inr (Some (PackedRel \<lparr> rel_r_offset = 0x14, rel_r_info = 5 \<rparr>)),
        Inr (Some (PackedRel \<lparr> rel_r_offset = 0x15, rel_r_info = 4 \<rparr>)), Inr None]
   \<and> fst (xh_elf_packed_reloc_iterator_read_group_fields aps2_rel_grouped_addend
         (snd (xh_elf_packed_reloc_iterator_init aps2_rel_grouped_addend 0x1000 6 0)))
     = Inl XH_ERRNO_FORMAT
   \<and> fst (packed_next_many aps2_rel_grouped_addend 1
         (snd (xh_elf_packed_reloc_iterator_init aps2_rel_grouped_addend 0x1000 6 0)))
     = [Inr None]"
  by (simp add: packed_next_many_numeral
      xh_elf_packed_reloc_iterator_init_def xh_elf_packed_reloc_iterator_next_def
      packed_next_fields_def xh_elf_packed_reloc_iterator_read_group_fields_def or_return_def
      packed_read_def xh_elf_sleb128_decoder_init_def xh_elf_sleb128_decoder_next_def
      aps2_rel_has_addend_def aps2_rel_two_addends_def aps2_rel_grouped_addend_def
      bytes_at_def Let_def word_le_nat_alt
      RELOCATION_GROUPED_BY_INFO_FLAG_def RELOCATION_GROUPED_BY_OFFSET_DELTA_FLAG_def
      RELOCATION_GROUPED_BY_ADDEND_FLAG_def RELOCATION_GROUP_HAS_ADDEND_FLAG_def)

section \<open>Reading the example images\<close>

lemma seg_scan_numeral:
  "seg_scan segs (numeral k) n =
     (case segs ! pred_numeral k of
        (base, bs) \<Rightarrow>
          if base \<le> n
          then case nth_byte bs (n - base) of Some b \<Rightarrow> b | None \<Rightarrow> seg_scan segs (pred_numeral k) n
          else seg_scan segs (pred_numeral k) n)"
  by (simp add: numeral_eq_Suc)

lemma elf_image_segments_length: "length (elf_image_segments magic) = 25"
  by (simp add: elf_image_segments_def)

lemma elf_image_segments_nth:
  "elf_image_segments magic ! 0 = (0x10020, [0x40, 0, 0, 0, 0, 0, 0, 0])"
  "elf_image_segments magic ! Suc 0 = (0x10038, [0x02, 0])"
  "elf_image_segments magic ! 2 = (0x10040, [0x01, 0, 0, 0, 0x06, 0, 0, 0, 0, 0, 0, 0, 0, 0, 0, 0, 0, 0, 0, 0, 0, 0, 0, 0, 0, 0, 0, 0, 0, 0, 0, 0, 0, 0x40, 0, 0, 0, 0, 0, 0, 0, 0x40, 0, 0, 0, 0, 0, 0, 0, 0x10, 0, 0, 0, 0, 0, 0])"
  "elf_image_segments magic ! 3 = (0x10078, [0x02, 0, 0, 0, 0x06, 0, 0, 0, 0, 0x01, 0, 0, 0, 0, 0, 0, 0, 0x01, 0, 0, 0, 0, 0, 0, 0, 0x01, 0, 0, 0, 0, 0, 0, 0xB0, 0, 0, 0, 0, 0, 0, 0, 0xB0, 0, 0, 0, 0, 0, 0, 0, 0x08, 0, 0, 0, 0, 0, 0, 0])"
  "elf_image_segments magic ! 4 = (0x10100, [0x05, 0, 0, 0, 0, 0, 0, 0, 0, 0x02, 0, 0, 0, 0, 0, 0])"
  "elf_image_segments magic ! 5 = (0x10110, [0x06, 0, 0, 0, 0, 0, 0, 0, 0x20, 0x02, 0, 0, 0, 0, 0, 0])"
  "elf_image_segments magic ! 6 = (0x10120, [0xF5, 0xFE, 0xFF, 0x6F, 0, 0, 0, 0, 0x80, 0x02, 0, 0, 0, 0, 0, 0])"
  "elf_image_segments magic ! 7 = (0x10130, [0x14, 0, 0, 0, 0, 0, 0, 0, 0x07, 0, 0, 0, 0, 0, 0, 0])"
  "elf_image_segments magic ! 8 = (0x10140, [0x17, 0, 0, 0, 0, 0, 0, 0, 0, 0x03, 0, 0, 0, 0, 0, 0])"
  "elf_image_segments magic ! 9 = (0x10150, [0x02, 0, 0, 0, 0, 0, 0, 0, 0x30, 0, 0, 0, 0, 0, 0, 0])"
  "elf_image_segments magic ! 10 = (0x10160, [0x07, 0, 0, 0, 0, 0, 0, 0, 0x40, 0x03, 0, 0, 0, 0, 0, 0])"
  "elf_image_segments magic ! 11 = (0x10170, [0x08, 0, 0, 0, 0, 0, 0, 0, 0x30, 0, 0, 0, 0, 0, 0, 0])"
  "elf_image_segments magic ! 12 = (0x10180, [0x11, 0, 0, 0x60, 0, 0, 0, 0, 0x80, 0x03, 0, 0, 0, 0, 0, 0])"
  "elf_image_segments magic ! 13 = (0x10190, [0x12, 0, 0, 0x60, 0, 0, 0, 0, 0x10, 0, 0, 0, 0, 0, 0, 0])"
  "elf_image_segments magic ! 14 = (0x101A0, [0, 0, 0, 0, 0, 0, 0, 0, 0, 0, 0, 0, 0, 0, 0, 0])"
  "elf_image_segments magic ! 15 = (0x10200, [0, 0x61, 0, 0x62, 0])"
  "elf_image_segments magic ! 16 = (0x10238, [0x01, 0, 0, 0])"
  "elf_image_segments magic ! 17 = (0x10250, [0x03, 0, 0, 0])"
  "elf_image_segments magic ! 18 = (0x10280, [0x01, 0, 0, 0, 0x02, 0, 0, 0, 0x01, 0, 0, 0, 0x06, 0, 0, 0, 0x80, 0, 0, 0x01, 0, 0, 0, 0, 0x02, 0, 0, 0, 0x07, 0xB6, 0x02, 0])"
  "elf_image_segments magic ! 19 = (0x10300, [0x20, 0x30, 0, 0, 0, 0, 0, 0, 0x02, 0x04, 0, 0, 0x02, 0, 0, 0, 0, 0, 0, 0, 0, 0, 0, 0])"
  "elf_image_segments magic ! 20 = (0x10318, [0, 0x30, 0, 0, 0, 0, 0, 0, 0x02, 0x04, 0, 0, 0x01, 0, 0, 0, 0, 0, 0, 0, 0, 0, 0, 0])"
  "elf_image_segments magic ! 21 = (0x10340, [0x08, 0x30, 0, 0, 0, 0, 0, 0, 0x01, 0x04, 0, 0, 0x01, 0, 0, 0, 0, 0, 0, 0, 0, 0, 0, 0])"
  "elf_image_segments magic ! 22 = (0x10358, [0x10, 0x30, 0, 0, 0, 0, 0, 0, 0x01, 0x01, 0, 0, 0x01, 0, 0, 0, 0, 0, 0, 0, 0, 0, 0, 0])"
  "elf_image_segments magic ! 23 = (0x10380, magic @ [0x01, 0, 0x01, 0, 0x98, 0xE0, 0, 0x81, 0x88, 0x80, 0x80, 0x10])"
  "elf_image_segments magic ! 24 = (0x13000, [0, 0xA0, 0, 0, 0, 0, 0, 0, 0x08, 0xA0, 0, 0, 0, 0, 0, 0, 0x10, 0xA0, 0, 0, 0, 0, 0, 0, 0x18, 0xA0, 0, 0, 0, 0, 0, 0, 0x20, 0xA0, 0, 0, 0, 0, 0, 0])"
  by (simp_all add: elf_image_segments_def le16_def le32_def le64_def)


lemmas elf_field_defs =
  e_ident_def e_type_def e_machine_def e_version_def e_phoff_def e_phnum_def p_type_def
  p_flags_def p_offset_def p_vaddr_def p_memsz_def d_tag_def d_un_def st_name_def
  r_offset_at_def r_info_at_def

lemmas elf_size_defs = lp64_def addr_bytes_def sizeof_Phdr_def sizeof_Dyn_def sizeof_Sym_def
  sizeof_Rel_def sizeof_Rela_def

lemmas elf_const_defs =
  PT_LOAD_def PT_DYNAMIC_def PF_X_def PF_W_def PF_R_def PROT_READ_def PROT_WRITE_def PROT_EXEC_def
  DT_PLTRELSZ_def DT_HASH_def DT_STRTAB_def DT_SYMTAB_def DT_RELA_def DT_RELASZ_def DT_REL_def
  DT_RELSZ_def DT_PLTREL_def DT_JMPREL_def DT_GNU_HASH_def DT_ANDROID_REL_def DT_ANDROID_RELSZ_def
  DT_ANDROID_RELA_def DT_ANDROID_RELASZ_def PAGE_SIZE_def PAGE_MASK_def PAGE_START_def PAGE_END_def
  PF_TO_PROT_def R_GENERIC_JUMP_SLOT_def R_GENERIC_GLOB_DAT_def R_GENERIC_ABS_def
  elf_r_sym_def elf_r_type_def

lemma elf_image_reads:
  "rd_addr elf_image 0x10020 = 0x40"
  "rd16 elf_image 0x10038 = 0x2"
  "rd32 elf_image 0x10040 = 0x1"
  "rd32 elf_image 0x10044 = 0x6"
  "rd_addr elf_image 0x10048 = 0"
  "rd_addr elf_image 0x10050 = 0"
  "rd_addr elf_image 0x10068 = 0x4000"
  "rd32 elf_image 0x10078 = 0x2"
  "rd32 elf_image 0x1007C = 0x6"
  "rd_addr elf_image 0x10080 = 0x100"
  "rd_addr elf_image 0x10088 = 0x100"
  "rd_addr elf_image 0x100A0 = 0xB0"
  "rd_addr elf_image 0x10100 = 0x5"
  "rd_addr elf_image 0x10108 = 0x200"
  "rd_addr elf_image 0x10110 = 0x6"
  "rd_addr elf_image 0x10118 = 0x220"
  "rd_addr elf_image 0x10120 = 0x6FFFFEF5"
  "rd_addr elf_image 0x10128 = 0x280"
  "rd_addr elf_image 0x10130 = 0x14"
  "rd_addr elf_image 0x10138 = 0x7"
  "rd_addr elf_image 0x10140 = 0x17"
  "rd_addr elf_image 0x10148 = 0x300"
  "rd_addr elf_image 0x10150 = 0x2"
  "rd_addr elf_image 0x10158 = 0x30"
  "rd_addr elf_image 0x10160 = 0x7"
  "rd_addr elf_image 0x10168 = 0x340"
  "rd_addr elf_image 0x10170 = 0x8"
  "rd_addr elf_image 0x10178 = 0x30"
  "rd_addr elf_image 0x10180 = 0x60000011"
  "rd_addr elf_image 0x10188 = 0x380"
  "rd_addr elf_image 0x10190 = 0x60000012"
  "rd_addr elf_image 0x10198 = 0x10"
  "rd_addr elf_image 0x101A0 = 0"
  "rd_addr elf_image 0x101A8 = 0"
  "rd32 elf_image 0x10280 = 0x1"
  "rd32 elf_image 0x10284 = 0x2"
  "rd32 elf_image 0x10288 = 0x1"
  "rd32 elf_image 0x1028C = 0x6"
  "rd32 elf_image 0x10298 = 0x2"
  "rd32 elf_image 0x1029C = 0x2B607"
  "elf_image 0x10380 = 0x41"
  "elf_image 0x10381 = 0x50"
  "elf_image 0x10382 = 0x53"
  "elf_image 0x10383 = 0x32"
  "elf_image 0x10384 = 0x1"
  "elf_image 0x10385 = 0"
  "elf_image 0x10386 = 0x1"
  "elf_image 0x10387 = 0"
  "elf_image 0x10388 = 0x98"
  "elf_image 0x10389 = 0xE0"
  "elf_image 0x1038A = 0"
  "elf_image 0x1038B = 0x81"
  "elf_image 0x1038C = 0x88"
  "elf_image 0x1038D = 0x80"
  "elf_image 0x1038E = 0x80"
  "elf_image 0x1038F = 0x10"
  "rd16 elf_image 0x10010 = 0"
  "rd16 elf_image 0x10012 = 0"
  "rd32 elf_image 0x10014 = 0"
  "elf_image 0x10000 = 0"
  "elf_image 0x10001 = 0"
  "elf_image 0x10002 = 0"
  "elf_image 0x10003 = 0"
  "elf_image 0x10004 = 0"
  "elf_image 0x10005 = 0"
  "elf_image 0x10006 = 0"
  "rd_addr elf_image 0x10290 = 0x1000080"
  "rd32 elf_image 0x10220 = 0"
  "rd32 elf_image 0x10238 = 0x1"
  "rd32 elf_image 0x10250 = 0x3"
  "elf_image 0x10200 = 0"
  "elf_image 0x10201 = 0x61"
  "elf_image 0x10202 = 0"
  "elf_image 0x10203 = 0x62"
  "elf_image 0x10204 = 0"
  "rd_addr elf_image 0x10300 = 0x3020"
  "rd_addr elf_image 0x10308 = 0x200000402"
  "rd_addr elf_image 0x10318 = 0x3000"
  "rd_addr elf_image 0x10320 = 0x100000402"
  "rd_addr elf_image 0x10330 = 0"
  "rd_addr elf_image 0x10338 = 0"
  "rd_addr elf_image 0x10340 = 0x3008"
  "rd_addr elf_image 0x10348 = 0x100000401"
  "rd_addr elf_image 0x10358 = 0x3010"
  "rd_addr elf_image 0x10360 = 0x100000101"
  "rd_addr elf_image 0x10370 = 0"
  "rd_addr elf_image 0x10378 = 0"
  "rd_addr elf_image 0x13000 = 0xA000"
  "rd_addr elf_image 0x13008 = 0xA008"
  "rd_addr elf_image 0x13010 = 0xA010"
  "rd_addr elf_image 0x13018 = 0xA018"
  "rd_addr elf_image 0x13020 = 0xA020"
  "rd_addr elf_image 0x20000 = 0"
  "rd_addr elf_image 0x20008 = 0"
  by (simp_all add: lp64_def rd16_def rd32_def rd_addr_def elf_image_def mem_of_def
      elf_image_segments_length elf_image_segments_nth seg_scan_numeral)

lemma elf_image_aps1_reads:
  "rd_addr elf_image_aps1 0x10020 = 0x40"
  "rd16 elf_image_aps1 0x10038 = 0x2"
  "rd32 elf_image_aps1 0x10040 = 0x1"
  "rd32 elf_image_aps1 0x10044 = 0x6"
  "rd_addr elf_image_aps1 0x10048 = 0"
  "rd_addr elf_image_aps1 0x10050 = 0"
  "rd_addr elf_image_aps1 0x10068 = 0x4000"
  "rd32 elf_image_aps1 0x10078 = 0x2"
  "rd32 elf_image_aps1 0x1007C = 0x6"
  "rd_addr elf_image_aps1 0x10080 = 0x100"
  "rd_addr elf_image_aps1 0x10088 = 0x100"
  "rd_addr elf_image_aps1 0x100A0 = 0xB0"
  "rd_addr elf_image_aps1 0x10100 = 0x5"
  "rd_addr elf_image_aps1 0x10108 = 0x200"
  "rd_addr elf_image_aps1 0x10110 = 0x6"
  "rd_addr elf_image_aps1 0x10118 = 0x220"
  "rd_addr elf_image_aps1 0x10120 = 0x6FFFFEF5"
  "rd_addr elf_image_aps1 0x10128 = 0x280"
  "rd_addr elf_image_aps1 0x10130 = 0x14"
  "rd_addr elf_image_aps1 0x10138 = 0x7"
  "rd_addr elf_image_aps1 0x10140 = 0x17"
  "rd_addr elf_image_aps1 0x10148 = 0x300"
  "rd_addr elf_image_aps1 0x10150 = 0x2"
  "rd_addr elf_image_aps1 0x10158 = 0x30"
  "rd_addr elf_image_aps1 0x10160 = 0x7"
  "rd_addr elf_image_aps1 0x10168 = 0x340"
  "rd_addr elf_image_aps1 0x10170 = 0x8"
  "rd_addr elf_image_aps1 0x10178 = 0x30"
  "rd_addr elf_image_aps1 0x10180 = 0x60000011"
  "rd_addr elf_image_aps1 0x10188 = 0x380"
  "rd_addr elf_image_aps1 0x10190 = 0x60000012"
  "rd_addr elf_image_aps1 0x10198 = 0x10"
  "rd_addr elf_image_aps1 0x101A0 = 0"
  "rd_addr elf_image_aps1 0x101A8 = 0"
  "rd32 elf_image_aps1 0x10280 = 0x1"
  "rd32 elf_image_aps1 0x10284 = 0x2"
  "rd32 elf_image_aps1 0x10288 = 0x1"
  "rd32 elf_image_aps1 0x1028C = 0x6"
  "rd32 elf_image_aps1 0x10298 = 0x2"
  "rd32 elf_image_aps1 0x1029C = 0x2B607"
  "elf_image_aps1 0x10380 = 0x41"
  "elf_image_aps1 0x10381 = 0x50"
  "elf_image_aps1 0x10382 = 0x53"
  "elf_image_aps1 0x10383 = 0x31"
  "elf_image_aps1 0x10384 = 0x1"
  "elf_image_aps1 0x10385 = 0"
  "elf_image_aps1 0x10386 = 0x1"
  "elf_image_aps1 0x10387 = 0"
  "elf_image_aps1 0x10388 = 0x98"
  "elf_image_aps1 0x10389 = 0xE0"
  "elf_image_aps1 0x1038A = 0"
  "elf_image_aps1 0x1038B = 0x81"
  "elf_image_aps1 0x1038C = 0x88"
  "elf_image_aps1 0x1038D = 0x80"
  "elf_image_aps1 0x1038E = 0x80"
  "elf_image_aps1 0x1038F = 0x10"
  by (simp_all add: lp64_def rd16_def rd32_def rd_addr_def elf_image_aps1_def mem_of_def
      elf_image_segments_length elf_image_segments_nth seg_scan_numeral)

section \<open>Properties of the image view initialisation\<close>

lemma first_segment_loop_none:
  "(\<forall>i<k. p_type mem (p + of_nat i * of_nat (sizeof_Phdr TYPE('a))) \<noteq> ty)
     \<Longrightarrow> first_segment_loop mem ty limit k (p :: 'a::len word) = 0"
proof (induction k arbitrary: p)
  case 0
  then show ?case by simp
next
  case (Suc k)
  have h: "p_type mem p \<noteq> ty" using Suc.prems[rule_format, of 0] by simp
  have "\<forall>i<k. p_type mem (p + of_nat (sizeof_Phdr TYPE('a)) + of_nat i * of_nat (sizeof_Phdr TYPE('a))) \<noteq> ty"
  proof (intro allI impI)
    fix i assume "i < k"
    then have "p_type mem (p + of_nat (Suc i) * of_nat (sizeof_Phdr TYPE('a))) \<noteq> ty"
      using Suc.prems[rule_format, of "Suc i"] by simp
    then show "p_type mem (p + of_nat (sizeof_Phdr TYPE('a)) + of_nat i * of_nat (sizeof_Phdr TYPE('a))) \<noteq> ty"
      by (simp add: algebra_simps)
  qed
  then have "first_segment_loop mem ty limit k (p + of_nat (sizeof_Phdr TYPE('a))) = 0"
    by (rule Suc.IH)
  then show ?case using h by simp
qed

text \<open>
  Claim C10.  When \<^verbatim>\<open>xh_elf_init\<close> is called on a fresh view (null \<^verbatim>\<open>pathname\<close>
  field) with a non-null pathname and a non-null base address, and none of the
  \<open>e_phnum\<close> program headers of the image has type \<^verbatim>\<open>PT_LOAD\<close>, the search
  \<^verbatim>\<open>xh_elf_get_first_segment_by_type(self, PT_LOAD)\<close> returns null and
  \<^verbatim>\<open>xh_elf_init\<close> reads \<^verbatim>\<open>lhdr->p_offset\<close> through that null pointer: the call ends
  in the trap, with no status, the view holding the three fields set so far.
\<close>

theorem xh_elf_init_without_pt_load:
  fixes base :: "'a::len word"
  shows "pathname self = 0 \<and> path \<noteq> 0 \<and> base \<noteq> 0 \<and>
         (\<forall>i<unat (e_phnum mem base).
            p_type mem (base + e_phoff mem base + of_nat i * of_nat (sizeof_Phdr TYPE('a))) \<noteq> PT_LOAD)
     \<longrightarrow> xh_elf_get_first_segment_by_type mem
            (self\<lparr> base_addr := base, ehdr := base, phdr := base + e_phoff mem base \<rparr>) PT_LOAD = 0
         \<and> xh_elf_init mem self base path
            = (Inl TRAP_NULL_DEREF, self\<lparr> base_addr := base, ehdr := base, phdr := base + e_phoff mem base \<rparr>)"
proof (intro impI)
  assume a: "pathname self = 0 \<and> path \<noteq> 0 \<and> base \<noteq> 0 \<and>
         (\<forall>i<unat (e_phnum mem base).
            p_type mem (base + e_phoff mem base + of_nat i * of_nat (sizeof_Phdr TYPE('a))) \<noteq> PT_LOAD)"
  have n: "xh_elf_get_first_segment_by_type mem
            (self\<lparr> base_addr := base, ehdr := base, phdr := base + e_phoff mem base \<rparr>) PT_LOAD = 0"
    unfolding xh_elf_get_first_segment_by_type_def
    using a by (intro first_segment_loop_none) simp
  show "xh_elf_get_first_segment_by_type mem
            (self\<lparr> base_addr := base, ehdr := base, phdr := base + e_phoff mem base \<rparr>) PT_LOAD = 0
         \<and> xh_elf_init mem self base path
            = (Inl TRAP_NULL_DEREF, self\<lparr> base_addr := base, ehdr := base, phdr := base + e_phoff mem base \<rparr>)"
    using a n by (simp add: xh_elf_init_def Let_def)
qed

theorem xh_elf_init_without_pt_load_witness:
  "xh_elf_get_first_segment_by_type no_load_image
     (xh_elf_zeroed\<lparr> base_addr := 0x10000, ehdr := 0x10000, phdr := 0x10040 \<rparr>) PT_LOAD = 0
   \<and> xh_elf_init no_load_image xh_elf_zeroed 0x10000 0x500
     = (Inl TRAP_NULL_DEREF, xh_elf_zeroed\<lparr> base_addr := 0x10000, ehdr := 0x10000, phdr := 0x10040 \<rparr>)"
proof -
  have r: "e_phnum no_load_image 0x10000 = 1" "e_phoff no_load_image 0x10000 = 0x40"
    "p_type no_load_image 0x10040 = 2"
    by (simp_all add: e_phnum_def e_phoff_def p_type_def rd16_def rd32_def rd_addr_def lp64_def
        no_load_image_def)
  show ?thesis
    using xh_elf_init_without_pt_load[where 'a = 64 and self = xh_elf_zeroed and path = "0x500"
        and base = "0x10000" and mem = no_load_image]
    by (simp add: r PT_LOAD_def xh_elf_zeroed_def)
qed

lemma first_segment_loop_numeral:
  "first_segment_loop mem ty limit (numeral k) p =
     (if p < limit
      then if p_type mem p = ty then p
           else first_segment_loop mem ty limit (pred_numeral k) (p + of_nat (sizeof_Phdr TYPE('a)))
      else 0)"
  for p :: "'a::len word"
  by (simp add: numeral_eq_Suc)

lemma dyn_loop_numeral:
  "dyn_loop mem dyn_end (numeral k) p self =
     (if p < dyn_end
      then dyn_loop mem dyn_end (pred_numeral k) (p + of_nat (sizeof_Dyn TYPE('a))) (dyn_entry mem p self)
      else self)"
  for p :: "'a::len word"
  by (simp add: numeral_eq_Suc)

lemmas xh_elf_init_eval =
  xh_elf_init_def xh_elf_get_first_segment_by_type_def first_segment_loop_numeral
  dyn_loop_numeral dyn_entry_def xh_elf_check_def xh_elf_zeroed_def
  elf_field_defs elf_size_defs elf_const_defs Let_def

lemma elf_image_init:
  "xh_elf_init elf_image xh_elf_zeroed 0x10000 0x500 = (Inr (), elf_image_view)"
  by (simp add: xh_elf_init_eval elf_image_view_def elf_image_reads)

lemma elf_image_aps1_init:
  "xh_elf_init elf_image_aps1 xh_elf_zeroed 0x10000 0x500
     = (Inl XH_ERRNO_FORMAT, elf_image_view\<lparr> relandroid := 0x10380, relandroid_sz := 16 \<rparr>)"
  by (simp add: xh_elf_init_eval elf_image_view_def elf_image_aps1_reads)

lemma small_image_reads:
  "rd_addr load_offset_image 0x10020 = 0x40" "rd16 load_offset_image 0x10038 = 1"
  "rd32 load_offset_image 0x10040 = 1" "rd_addr load_offset_image 0x10048 = 1"
  "rd_addr no_dynamic_image 0x10020 = 0x40" "rd16 no_dynamic_image 0x10038 = 1"
  "rd32 no_dynamic_image 0x10040 = 1" "rd_addr no_dynamic_image 0x10048 = 0"
  "rd_addr no_dynamic_image 0x10050 = 0"
  "rd_addr empty_dynamic_image 0x10020 = 0x40" "rd16 empty_dynamic_image 0x10038 = 2"
  "rd32 empty_dynamic_image 0x10040 = 1" "rd_addr empty_dynamic_image 0x10048 = 0"
  "rd_addr empty_dynamic_image 0x10050 = 0" "rd32 empty_dynamic_image 0x10078 = 2"
  "rd_addr empty_dynamic_image 0x10088 = 0" "rd_addr empty_dynamic_image 0x100A0 = 0"
  by (simp_all add: rd16_def rd32_def rd_addr_def lp64_def
      load_offset_image_def no_dynamic_image_def empty_dynamic_image_def)

text \<open>
  Claim C2 (it fails).  \<^verbatim>\<open>xh_elf_init\<close> returns \<^verbatim>\<open>XH_ERRNO_FORMAT\<close> without zeroing
  the view on each of its three early exits.  For \<open>elf_image_aps1\<close>, whose packed
  region begins with \<open>A P S 1\<close>, the view comes back with every field parsed so
  far, \<^verbatim>\<open>pathname\<close> included (it is the view of \<open>elf_image\<close> but for the packed
  region, not yet stepped over its magic).  For a first \<^verbatim>\<open>PT_LOAD\<close> with a non-zero
  file offset it comes back with \<^verbatim>\<open>base_addr\<close>, \<^verbatim>\<open>ehdr\<close> and \<^verbatim>\<open>phdr\<close> set, and for
  a missing \<^verbatim>\<open>PT_DYNAMIC\<close> with \<^verbatim>\<open>bias_addr\<close> set as well.  Only the failure of
  \<^verbatim>\<open>xh_elf_check\<close> (here on an empty dynamic section) zeroes the view.
\<close>

theorem xh_elf_init_format_keeps_view:
  "xh_elf_init elf_image_aps1 xh_elf_zeroed 0x10000 0x500
     = (Inl XH_ERRNO_FORMAT, elf_image_view\<lparr> relandroid := 0x10380, relandroid_sz := 16 \<rparr>)
   \<and> pathname (snd (xh_elf_init elf_image_aps1 xh_elf_zeroed 0x10000 0x500)) = 0x500
   \<and> xh_elf_init load_offset_image xh_elf_zeroed 0x10000 0x500
     = (Inl XH_ERRNO_FORMAT, xh_elf_zeroed\<lparr> base_addr := 0x10000, ehdr := 0x10000, phdr := 0x10040 \<rparr>)
   \<and> xh_elf_init no_dynamic_image xh_elf_zeroed 0x10000 0x500
     = (Inl XH_ERRNO_FORMAT, xh_elf_zeroed\<lparr> base_addr := 0x10000, ehdr := 0x10000, phdr := 0x10040,
                                               bias_addr := 0x10000 \<rparr>)
   \<and> xh_elf_init empty_dynamic_image xh_elf_zeroed 0x10000 0x500
     = (Inl XH_ERRNO_FORMAT, xh_elf_zeroed)"
proof -
  have a: "xh_elf_init load_offset_image xh_elf_zeroed 0x10000 0x500
     = (Inl XH_ERRNO_FORMAT, xh_elf_zeroed\<lparr> base_addr := 0x10000, ehdr := 0x10000, phdr := 0x10040 \<rparr>)"
    by (simp add: xh_elf_init_eval small_image_reads)
  have b: "xh_elf_init no_dynamic_image xh_elf_zeroed 0x10000 0x500
     = (Inl XH_ERRNO_FORMAT, xh_elf_zeroed\<lparr> base_addr := 0x10000, ehdr := 0x10000, phdr := 0x10040,
                                               bias_addr := 0x10000 \<rparr>)"
    by (simp add: xh_elf_init_eval small_image_reads)
  have c: "xh_elf_init empty_dynamic_image xh_elf_zeroed 0x10000 0x500
     = (Inl XH_ERRNO_FORMAT, xh_elf_zeroed)"
    by (simp add: xh_elf_init_eval small_image_reads)
  have d: "pathname (elf_image_view\<lparr> relandroid := 0x10380, relandroid_sz := 16 \<rparr>) = 0x500"
    by (simp add: elf_image_view_def)
  show ?thesis
    by (simp only: elf_image_aps1_init a b c d snd_conv simp_thms)
qed

theorem xh_elf_init_format_keeps_view_witness:
  "fst (xh_elf_init elf_image_aps1 xh_elf_zeroed 0x10000 0x500) = Inl XH_ERRNO_FORMAT
   \<and> pathname (snd (xh_elf_init elf_image_aps1 xh_elf_zeroed 0x10000 0x500)) = 0x500
   \<and> base_addr (snd (xh_elf_init load_offset_image xh_elf_zeroed 0x10000 0x500)) = 0x10000
   \<and> bias_addr (snd (xh_elf_init no_dynamic_image xh_elf_zeroed 0x10000 0x500)) = 0x10000
   \<and> snd (xh_elf_init empty_dynamic_image xh_elf_zeroed 0x10000 0x500) = xh_elf_zeroed"
  using xh_elf_init_format_keeps_view by (simp add: elf_image_view_def)

text \<open>
  Claim C4, as the code has it.  The ELF header is validated by
  \<^verbatim>\<open>xh_elf_check_elfheader\<close>, a function of its own that \<^verbatim>\<open>xh_elf_init\<close> does not
  call.  For a non-null \<^verbatim>\<open>base_addr\<close> it returns \<open>0\<close> exactly when the header at
  \<^verbatim>\<open>base_addr\<close> has the magic bytes \<open>0x7f 'E' 'L' 'F'\<close>, the class of the build
  (\<^verbatim>\<open>ELFCLASS64\<close> for 64 bits, \<^verbatim>\<open>ELFCLASS32\<close> otherwise), little-endian data, the
  current version in \<^verbatim>\<open>EI_VERSION\<close> and in \<^verbatim>\<open>e_version\<close>, the type \<^verbatim>\<open>ET_EXEC\<close> or
  \<^verbatim>\<open>ET_DYN\<close> and the machine of the build (\<^verbatim>\<open>EM_AARCH64\<close> or \<^verbatim>\<open>EM_ARM\<close>); on any
  violation it returns \<^verbatim>\<open>XH_ERRNO_FORMAT\<close>.
\<close>

theorem xh_elf_check_elfheader_validates:
  fixes base :: "'a::len word"
  shows "base \<noteq> 0 \<longrightarrow>
     xh_elf_check_elfheader mem base
       = (if mem base = 0x7f \<and> mem (base + 1) = 0x45 \<and> mem (base + 2) = 0x4c \<and>
             mem (base + 3) = 0x46 \<and>
             mem (base + 4) = (if LENGTH('a) = 64 then 2 else 1) \<and>
             mem (base + 5) = 1 \<and> mem (base + 6) = 1 \<and>
             (rd16 mem (base + 16) = 2 \<or> rd16 mem (base + 16) = 3) \<and>
             rd16 mem (base + 18) = (if LENGTH('a) = 64 then 183 else 40) \<and>
             rd32 mem (base + 20) = 1
          then Inr () else Inl XH_ERRNO_FORMAT)"
  by (auto simp: xh_elf_check_elfheader_def e_ident_def e_type_def e_machine_def e_version_def
      lp64_def)

theorem xh_elf_check_elfheader_validates_witness:
  "xh_elf_check_elfheader valid_header_image 0x10000 = Inr ()
   \<and> xh_elf_check_elfheader big_endian_header_image 0x10000 = Inl XH_ERRNO_FORMAT"
  using xh_elf_check_elfheader_validates[where 'a = 64 and mem = valid_header_image and base = "0x10000"]
    xh_elf_check_elfheader_validates[where 'a = 64 and mem = big_endian_header_image and base = "0x10000"]
  by (simp add: valid_header_image_def big_endian_header_image_def bytes_at_def rd16_def rd32_def)

text \<open>
  Claim C4 as stated fails: the header of \<open>elf_image\<close> has no magic bytes (its
  identification bytes are zero) and \<^verbatim>\<open>xh_elf_check_elfheader\<close> rejects it, yet
  \<^verbatim>\<open>xh_elf_init\<close> succeeds on it and builds the view.
\<close>

theorem xh_elf_init_skips_header_check:
  "xh_elf_check_elfheader elf_image 0x10000 = Inl XH_ERRNO_FORMAT
   \<and> xh_elf_init elf_image xh_elf_zeroed 0x10000 0x500 = (Inr (), elf_image_view)"
  by (simp add: elf_image_init)
     (simp add: xh_elf_check_elfheader_def e_ident_def elf_image_reads)
section \<open>Properties of the symbol lookup\<close>

lemma mem_access_loop_numeral:
  "mem_access_loop mem self addr limit (numeral k) p =
     (if p < limit
      then if p_type mem p = PT_LOAD \<and>
              PAGE_START (bias_addr self + p_vaddr mem p) \<le> addr \<and>
              addr < PAGE_END (bias_addr self + p_vaddr mem p + p_memsz mem p)
           then Inr (p_flags mem p)
           else mem_access_loop mem self addr limit (pred_numeral k) (p + of_nat (sizeof_Phdr TYPE('a)))
      else Inl XH_ERRNO_NOTFND)"
  for p :: "'a::len word"
  by (simp add: numeral_eq_Suc)

lemma gnu_hash_a: "xh_elf_gnu_hash [0x61] = 0x2B606"
  by (simp add: xh_elf_gnu_hash_def)

lemma elf_image_lookup_def_a:
  "xh_elf_gnu_hash_lookup_def elf_image elf_image_view [0x61] = Some (Inl XH_ERRNO_NOTFND)"
  unfolding xh_elf_gnu_hash_lookup_def_def gnu_hash_a Let_def
  apply (simp add: elf_image_view_def addr_bytes_def)
  apply (simp add: elf_image_reads)
  done

lemma elf_image_undef_a:
  "xh_elf_gnu_hash_lookup_undef elf_image elf_image_view [0x61] = Inr 1"
  unfolding xh_elf_gnu_hash_lookup_undef_def
  apply (simp add: sym_name_ptr_def elf_image_view_def st_name_def sizeof_Sym_def lp64_def
      elf_image_reads)
  done

lemma elf_image_lookup_a:
  "xh_elf_find_symidx_by_name elf_image elf_image_view [0x61] = Some (Inr 1)"
proof -
  have "is_use_gnu_hash elf_image_view \<noteq> 0" by (simp add: elf_image_view_def)
  then show ?thesis
    by (simp add: xh_elf_find_symidx_by_name_def xh_elf_gnu_hash_lookup_def elf_image_lookup_def_a
      elf_image_undef_a)
qed

lemma c_str_eq_bytes:
  "0 \<notin> set name \<Longrightarrow>
     c_str_eq mem p name =
       ((\<forall>k<length name. mem (p + of_nat k) = name ! k) \<and> mem (p + of_nat (length name)) = 0)"
proof (induction name arbitrary: p)
  case Nil
  then show ?case by simp
next
  case (Cons c cs)
  have c0: "c \<noteq> 0" and cs0: "0 \<notin> set cs" using Cons.prems by auto
  have IH: "c_str_eq mem (p + 1) cs =
       ((\<forall>k<length cs. mem (p + 1 + of_nat k) = cs ! k) \<and> mem (p + 1 + of_nat (length cs)) = 0)"
    using Cons.IH[OF cs0] .
  have "(\<forall>k<length (c # cs). mem (p + of_nat k) = (c # cs) ! k)
      = (mem p = c \<and> (\<forall>k<length cs. mem (p + 1 + of_nat k) = cs ! k))"
    by (simp add: All_less_Suc2 ac_simps)
  then show ?case using c0 IH by (simp add: ac_simps)
qed

lemma gnu_undef_loop_find:
  fixes self :: "'a::len word xh_elf_t"
  assumes "i + n = unat (symoffset self)"
  shows "gnu_undef_loop mem self symbol (of_nat i)
       = (case List.find (\<lambda>j. c_str_eq mem (sym_name_ptr mem self (of_nat j)) symbol) [i..<i + n] of
            Some j \<Rightarrow> Inr (of_nat j) | None \<Rightarrow> Inl XH_ERRNO_NOTFND)"
  using assms
proof (induction n arbitrary: i)
  case 0
  then have "(of_nat i :: 32 word) = symoffset self" by simp
  then show ?case by (subst gnu_undef_loop.simps) simp
next
  case (Suc n)
  have lt: "i < unat (symoffset self)" using Suc.prems by simp
  then have i32: "i < 2 ^ 32" using unsigned_less[of "symoffset self", where 'a = nat] by simp
  have ui: "unat (of_nat i :: 32 word) = i" using i32 by (simp add: unat_of_nat_small)
  have c: "(of_nat i :: 32 word) < symoffset self" using lt ui by (simp add: word_less_nat_alt)
  have IH: "gnu_undef_loop mem self symbol (of_nat (Suc i))
       = (case List.find (\<lambda>j. c_str_eq mem (sym_name_ptr mem self (of_nat j)) symbol) [Suc i..<Suc i + n] of
            Some j \<Rightarrow> Inr (of_nat j) | None \<Rightarrow> Inl XH_ERRNO_NOTFND)"
    using Suc.prems by (intro Suc.IH) simp
  have u: "[i..<i + Suc n] = i # [Suc i..<Suc i + n]" by (simp add: upt_conv_Cons)
  show ?case
    apply (subst gnu_undef_loop.simps)
    apply (simp only: u find.simps c if_True)
    using IH apply (simp add: ac_simps)
    done
qed

text \<open>
  Claim C8.  When the defined-symbol lookup \<^verbatim>\<open>xh_elf_gnu_hash_lookup_def\<close> (bloom
  filter, bucket, chain walk) ends with \<^verbatim>\<open>XH_ERRNO_NOTFND\<close>,
  \<^verbatim>\<open>xh_elf_gnu_hash_lookup\<close> returns the first index \<open>j\<close> among \<open>0 .. symoffset - 1\<close>
  whose name \<^verbatim>\<open>strtab + symtab[j].st_name\<close> equals the symbol, and
  \<^verbatim>\<open>XH_ERRNO_NOTFND\<close> when no such index has it.  For a GNU-hashed view
  \<^verbatim>\<open>xh_elf_find_symidx_by_name\<close> is this lookup.  A name without a zero byte inside
  equals the string at \<open>p\<close> exactly when its bytes stand at \<open>p\<close>, followed by a zero
  byte.
\<close>

theorem gnu_hash_lookup_falls_back:
  fixes self :: "'a::len word xh_elf_t"
  shows "(xh_elf_gnu_hash_lookup_def mem self symbol = Some (Inl XH_ERRNO_NOTFND) \<longrightarrow>
          xh_elf_gnu_hash_lookup mem self symbol
            = Some (case List.find (\<lambda>j. c_str_eq mem (sym_name_ptr mem self (of_nat j)) symbol)
                           [0..<unat (symoffset self)] of
                      Some j \<Rightarrow> Inr (of_nat j) | None \<Rightarrow> Inl XH_ERRNO_NOTFND))
       \<and> (is_use_gnu_hash self \<noteq> 0 \<longrightarrow>
          xh_elf_find_symidx_by_name mem self symbol = xh_elf_gnu_hash_lookup mem self symbol)
       \<and> (0 \<notin> set symbol \<longrightarrow>
          c_str_eq mem p symbol =
            ((\<forall>k<length symbol. mem (p + of_nat k) = symbol ! k) \<and>
             mem (p + of_nat (length symbol)) = 0))"
proof (intro conjI impI)
  assume d: "xh_elf_gnu_hash_lookup_def mem self symbol = Some (Inl XH_ERRNO_NOTFND)"
  have "gnu_undef_loop mem self symbol (of_nat 0)
       = (case List.find (\<lambda>j. c_str_eq mem (sym_name_ptr mem self (of_nat j)) symbol)
                 [0..<0 + unat (symoffset self)] of
            Some j \<Rightarrow> Inr (of_nat j) | None \<Rightarrow> Inl XH_ERRNO_NOTFND)"
    by (intro gnu_undef_loop_find) simp
  then show "xh_elf_gnu_hash_lookup mem self symbol
            = Some (case List.find (\<lambda>j. c_str_eq mem (sym_name_ptr mem self (of_nat j)) symbol)
                           [0..<unat (symoffset self)] of
                      Some j \<Rightarrow> Inr (of_nat j) | None \<Rightarrow> Inl XH_ERRNO_NOTFND)"
    by (simp add: xh_elf_gnu_hash_lookup_def d xh_elf_gnu_hash_lookup_undef_def split: option.splits)
next
  assume "is_use_gnu_hash self \<noteq> 0"
  then show "xh_elf_find_symidx_by_name mem self symbol = xh_elf_gnu_hash_lookup mem self symbol"
    by (simp add: xh_elf_find_symidx_by_name_def)
next
  assume "0 \<notin> set symbol"
  then show "c_str_eq mem p symbol =
            ((\<forall>k<length symbol. mem (p + of_nat k) = symbol ! k) \<and>
             mem (p + of_nat (length symbol)) = 0)"
    by (rule c_str_eq_bytes)
qed

lemma gnu_hash_c: "xh_elf_gnu_hash [0x63] = 0x2B608"
  by (simp add: xh_elf_gnu_hash_def)

lemma elf_image_lookup_def_c:
  "xh_elf_gnu_hash_lookup_def elf_image elf_image_view [0x63] = Some (Inl XH_ERRNO_NOTFND)"
  unfolding xh_elf_gnu_hash_lookup_def_def gnu_hash_c Let_def
  apply (simp add: elf_image_view_def addr_bytes_def)
  apply (simp add: elf_image_reads)
  done

lemma elf_image_names:
  "sym_name_ptr elf_image elf_image_view 0 = 0x10200"
  "sym_name_ptr elf_image elf_image_view 1 = 0x10201"
  by (simp_all add: sym_name_ptr_def elf_image_view_def st_name_def sizeof_Sym_def lp64_def
      elf_image_reads)

theorem gnu_hash_lookup_falls_back_witness:
  "xh_elf_gnu_hash_lookup elf_image elf_image_view [0x61] = Some (Inr 1)
   \<and> xh_elf_find_symidx_by_name elf_image elf_image_view [0x61] = Some (Inr 1)
   \<and> xh_elf_find_symidx_by_name elf_image elf_image_view [0x63] = Some (Inl XH_ERRNO_NOTFND)
   \<and> c_str_eq elf_image 0x10201 [0x61]"
proof -
  have g: "is_use_gnu_hash elf_image_view \<noteq> 0" and so: "unat (symoffset elf_image_view) = 2"
    by (simp_all add: elf_image_view_def)
  show ?thesis
    using gnu_hash_lookup_falls_back[where 'a = 64 and mem = elf_image and self = elf_image_view
        and symbol = "[0x61]" and p = "0x10201"]
      gnu_hash_lookup_falls_back[where 'a = 64 and mem = elf_image and self = elf_image_view
        and symbol = "[0x63]" and p = "0x10201"]
    by (simp add: elf_image_lookup_def_a elf_image_lookup_def_c g so upt_0_2 elf_image_names
        elf_image_reads)
qed
section \<open>Properties of the hook engine\<close>

lemma wr_addr_far:
  fixes p a :: "'a::len word"
  assumes "unat p < unat a \<or> unat a + addr_bytes TYPE('a) \<le> unat p"
    and "unat a + addr_bytes TYPE('a) \<le> 2 ^ LENGTH('a)"
  shows "wr_addr m a v p = m p"
proof -
  have "\<not> unat (p - a) < addr_bytes TYPE('a)"
  proof (cases "unat a \<le> unat p")
    case True
    then have "unat (p - a) = unat p - unat a" by (simp add: unat_sub word_le_nat_alt)
    then show ?thesis using assms(1) True by simp
  next
    case False
    then have "unat (p - a) = 2 ^ LENGTH('a) + unat p - unat a"
      by (simp add: unat_sub_if' )
    then show ?thesis using assms(2) False by simp
  qed
  then show ?thesis by (simp add: wr_addr_def)
qed

lemma wr_addr_far_off:
  fixes p a :: "'a::len word"
  assumes "unat p + n \<le> unat a \<or> unat a + addr_bytes TYPE('a) \<le> unat p"
    and "unat a + addr_bytes TYPE('a) \<le> 2 ^ LENGTH('a)"
    and "unat p + n \<le> 2 ^ LENGTH('a)" and "k < n"
  shows "wr_addr m a v (p + of_nat k) = m (p + of_nat k)"
proof -
  have "unat (p + of_nat k) = unat p + k"
    using assms(3,4) by (intro unat_add_small) simp
  then show ?thesis
    using assms(1,4) by (intro wr_addr_far[OF _ assms(2)]) auto
qed

lemma rd16_wr_addr_far:
  fixes p a :: "'a::len word"
  assumes "unat p + 2 \<le> unat a \<or> unat a + addr_bytes TYPE('a) \<le> unat p"
    and "unat a + addr_bytes TYPE('a) \<le> 2 ^ LENGTH('a)"
    and "unat p + 2 \<le> 2 ^ LENGTH('a)"
  shows "rd16 (wr_addr m a v) p = rd16 m p"
  using wr_addr_far_off[OF assms, of 0 m v] wr_addr_far_off[OF assms, of 1 m v]
  by (simp add: rd16_def)

lemma rd32_wr_addr_far:
  fixes p a :: "'a::len word"
  assumes "unat p + 4 \<le> unat a \<or> unat a + addr_bytes TYPE('a) \<le> unat p"
    and "unat a + addr_bytes TYPE('a) \<le> 2 ^ LENGTH('a)"
    and "unat p + 4 \<le> 2 ^ LENGTH('a)"
  shows "rd32 (wr_addr m a v) p = rd32 m p"
  using wr_addr_far_off[OF assms, of 0 m v] wr_addr_far_off[OF assms, of 1 m v]
    wr_addr_far_off[OF assms, of 2 m v] wr_addr_far_off[OF assms, of 3 m v]
  by (simp add: rd32_def)

lemma rd_addr_wr_addr_far:
  fixes p a :: "'a::len word"
  assumes "unat p + 8 \<le> unat a \<or> unat a + addr_bytes TYPE('a) \<le> unat p"
    and "unat a + addr_bytes TYPE('a) \<le> 2 ^ LENGTH('a)"
    and "unat p + 8 \<le> 2 ^ LENGTH('a)"
  shows "rd_addr (wr_addr m a v) p = rd_addr m p"
proof -
  have a: "unat p + 4 \<le> unat a \<or> unat a + addr_bytes TYPE('a) \<le> unat p"
    and c: "unat p + 4 \<le> 2 ^ LENGTH('a)"
    using assms by auto
  have u: "unat (p + 4) = unat p + 4"
    using unat_add_small[of p 4] assms(3) by simp
  have a4: "unat (p + 4) + 4 \<le> unat a \<or> unat a + addr_bytes TYPE('a) \<le> unat (p + 4)"
    and c4: "unat (p + 4) + 4 \<le> 2 ^ LENGTH('a)"
    using assms u by auto
  show ?thesis
    by (simp add: rd_addr_def rd32_wr_addr_far[OF a assms(2) c] rd32_wr_addr_far[OF a4 assms(2) c4])
qed

lemma word32_bytes:
  fixes w :: "32 word"
  shows "ucast (ucast w :: 8 word) OR push_bit 8 (ucast (ucast (drop_bit 8 w) :: 8 word))
                OR push_bit 16 (ucast (ucast (drop_bit 16 w) :: 8 word))
                OR push_bit 24 (ucast (ucast (drop_bit 24 w) :: 8 word)) = w"
proof (rule bit_word_eqI)
  fix n :: nat assume n: "n < LENGTH(32)"
  consider "n < 8" | "8 \<le> n" "n < 16" | "16 \<le> n" "n < 24" | "24 \<le> n" "n < 32"
    using n by fastforce
  then show "bit (ucast (ucast w :: 8 word) OR push_bit 8 (ucast (ucast (drop_bit 8 w) :: 8 word))
                OR push_bit 16 (ucast (ucast (drop_bit 16 w) :: 8 word))
                OR push_bit 24 (ucast (ucast (drop_bit 24 w) :: 8 word)) :: 32 word) n = bit w n"
    by cases (auto simp add: bit_simps)
qed

lemma word64_halves:
  fixes v :: "64 word"
  shows "ucast (ucast v :: 32 word) OR push_bit 32 (ucast (ucast (drop_bit 32 v) :: 32 word)) = v"
proof (rule bit_word_eqI)
  fix n :: nat assume n: "n < LENGTH(64)"
  consider "n < 32" | "32 \<le> n" "n < 64"
    using n by fastforce
  then show "bit (ucast (ucast v :: 32 word) OR push_bit 32 (ucast (ucast (drop_bit 32 v) :: 32 word)) :: 64 word) n
     = bit v n"
    by cases (auto simp add: bit_simps)
qed

lemma byte_of_half:
  fixes v :: "64 word"
  shows "k \<le> 24 \<Longrightarrow> (ucast (drop_bit k (ucast v :: 32 word)) :: 8 word) = ucast (drop_bit k v)"
    and "k \<le> 24 \<Longrightarrow> (ucast (drop_bit k (ucast (drop_bit 32 v) :: 32 word)) :: 8 word) = ucast (drop_bit (32 + k) v)"
  by (rule bit_word_eqI, auto simp add: bit_simps ac_simps)+

lemma word64_bytes:
  fixes v :: "64 word"
  shows "ucast (ucast (ucast v :: 8 word) OR push_bit 8 (ucast (ucast (drop_bit 8 v) :: 8 word))
                OR push_bit 16 (ucast (ucast (drop_bit 16 v) :: 8 word))
                OR push_bit 24 (ucast (ucast (drop_bit 24 v) :: 8 word)) :: 32 word)
         OR push_bit 32 (ucast (ucast (ucast (drop_bit 32 v) :: 8 word)
                OR push_bit 8 (ucast (ucast (drop_bit 40 v) :: 8 word))
                OR push_bit 16 (ucast (ucast (drop_bit 48 v) :: 8 word))
                OR push_bit 24 (ucast (ucast (drop_bit 56 v) :: 8 word)) :: 32 word))
         = v"
proof -
  have lo: "ucast (ucast v :: 8 word) OR push_bit 8 (ucast (ucast (drop_bit 8 v) :: 8 word))
                OR push_bit 16 (ucast (ucast (drop_bit 16 v) :: 8 word))
                OR push_bit 24 (ucast (ucast (drop_bit 24 v) :: 8 word)) = (ucast v :: 32 word)"
    using word32_bytes[of "ucast v"] byte_of_half(1)[of 0 v] byte_of_half(1)[of 8 v]
      byte_of_half(1)[of 16 v] byte_of_half(1)[of 24 v]
    by simp
  have hi: "ucast (ucast (drop_bit 32 v) :: 8 word)
                OR push_bit 8 (ucast (ucast (drop_bit 40 v) :: 8 word))
                OR push_bit 16 (ucast (ucast (drop_bit 48 v) :: 8 word))
                OR push_bit 24 (ucast (ucast (drop_bit 56 v) :: 8 word)) = (ucast (drop_bit 32 v) :: 32 word)"
    using word32_bytes[of "ucast (drop_bit 32 v)"] byte_of_half(2)[of 0 v] byte_of_half(2)[of 8 v]
      byte_of_half(2)[of 16 v] byte_of_half(2)[of 24 v]
    by simp
  show ?thesis by (simp only: lo hi word64_halves)
qed

lemma rd_addr_wr_addr_same:
  fixes a v :: "64 word"
  shows "rd_addr (wr_addr m a v) a = v"
proof -
  have b: "\<And>k. k < 8 \<Longrightarrow> wr_addr m a v (a + of_nat k) = ucast (drop_bit (8 * k) v)"
    by (simp add: wr_addr_def addr_bytes_def unat_of_nat_small)
  show ?thesis
    using b[of 0] b[of 1] b[of 2] b[of 3] b[of 4] b[of 5] b[of 6] b[of 7]
    by (simp add: rd_addr_def rd32_def lp64_def add.assoc word64_bytes)
qed

lemmas wr_frame = rd16_wr_addr_far rd32_wr_addr_far rd_addr_wr_addr_far wr_addr_far
  rd_addr_wr_addr_same

lemmas hook_eval =
  xh_elf_find_and_replace_func_def reloc_matches_def reloc_r_info_def reloc_r_offset_def
  xh_elf_replace_function_def xh_elf_get_mem_access_def mem_access_loop_numeral
  xh_elf_set_mem_access_def xh_elf_plain_reloc_iterator_init_def
  xh_elf_plain_reloc_iterator_next_def
  elf_field_defs elf_size_defs elf_const_defs Let_def

lemma hook_plt:
  "hook_plain_loop elf_image_view 0xBEEF00 0x20000 1 True
     (xh_elf_plain_reloc_iterator_init 0x10300 48 1) elf_image_proc = Some (Inr (), elf_image_hooked_plt)"
  apply (subst hook_plain_loop.simps)
  apply (simp add: hook_eval elf_image_proc_def elf_image_view_def elf_image_reads word_le_nat_alt)
  apply (simp add: elf_image_hooked_plt_def)
  done

lemma hook_dyn:
  "hook_plain_loop elf_image_view 0xBEEF00 0x20000 1 False
     (xh_elf_plain_reloc_iterator_init 0x10340 48 1) elf_image_hooked_plt = Some (Inr (), elf_image_hooked_dyn)"
  apply (subst hook_plain_loop.simps)
  apply (simp add: hook_eval elf_image_hooked_plt_def elf_image_view_def elf_image_reads word_le_nat_alt wr_frame)
  apply (subst hook_plain_loop.simps)
  apply (simp add: hook_eval elf_image_hooked_plt_def elf_image_view_def elf_image_reads word_le_nat_alt wr_frame)
  apply (subst hook_plain_loop.simps)
  apply (simp add: hook_eval elf_image_hooked_plt_def elf_image_view_def elf_image_reads word_le_nat_alt wr_frame)
  apply (simp add: elf_image_hooked_dyn_def elf_image_hooked_plt_def)
  done

lemmas packed_eval =
  xh_elf_packed_reloc_iterator_init_def xh_elf_packed_reloc_iterator_next_def
  packed_next_fields_def xh_elf_packed_reloc_iterator_read_group_fields_def or_return_def
  packed_read_def xh_elf_sleb128_decoder_init_def xh_elf_sleb128_decoder_next_def
  RELOCATION_GROUPED_BY_INFO_FLAG_def RELOCATION_GROUPED_BY_OFFSET_DELTA_FLAG_def
  RELOCATION_GROUPED_BY_ADDEND_FLAG_def RELOCATION_GROUP_HAS_ADDEND_FLAG_def

lemma android_init:
  "xh_elf_packed_reloc_iterator_init (memory elf_image_hooked_dyn) 0x10384 12 1 = (Inr (), elf_image_android_start)"
  by (simp add: packed_eval elf_image_hooked_dyn_def elf_image_hooked_plt_def elf_image_android_start_def elf_image_reads wr_frame
      addr_bytes_def word_le_nat_alt)

lemma hook_android:
  "hook_packed_loop elf_image_view 0xBEEF00 0x20000 1 elf_image_android_start elf_image_hooked_dyn = Some (Inr (), elf_image_hooked)"
  apply (subst hook_packed_loop.simps)
  apply (simp add: packed_eval hook_eval elf_image_hooked_dyn_def elf_image_hooked_plt_def elf_image_android_start_def elf_image_view_def
      elf_image_reads wr_frame word_le_nat_alt)
  apply (subst hook_packed_loop.simps)
  apply (simp add: packed_eval elf_image_hooked_def elf_image_hooked_dyn_def elf_image_hooked_plt_def)
  done

lemma elf_image_hook_first:
  "xh_elf_hook elf_image_view (Some [0x61]) 0xBEEF00 0x20000 elf_image_proc = Some (Inr (), elf_image_hooked)"
proof -
  have v: "pathname elf_image_view \<noteq> 0" "relplt elf_image_view = 0x10300"
    "relplt_sz elf_image_view = 48" "reldyn elf_image_view = 0x10340"
    "reldyn_sz elf_image_view = 48" "relandroid elf_image_view = 0x10384"
    "relandroid_sz elf_image_view = 12" "is_use_rela elf_image_view = 1"
    by (simp_all add: elf_image_view_def)
  have m: "memory elf_image_proc = elf_image" by (simp add: elf_image_proc_def)
  show ?thesis
    by (simp add: xh_elf_hook_def hook_regions_def v m elf_image_lookup_a hook_plt hook_dyn
        android_init hook_android)
qed
















lemmas hooked_defs = elf_image_hooked_def elf_image_hooked_dyn_def elf_image_hooked_plt_def


lemma elf_image_yields:
  "plain_reloc_yield (xh_elf_plain_reloc_iterator_init (0x10300 :: 64 word) 48 1) = Some [0x10318, 0x10330]"
  "plain_reloc_yield (xh_elf_plain_reloc_iterator_init (0x10340 :: 64 word) 48 1) = Some [0x10358, 0x10370]"
  by (simp_all add: plain_reloc_yield.simps xh_elf_plain_reloc_iterator_init_def
      xh_elf_plain_reloc_iterator_next_def sizeof_Rela_def addr_bytes_def word_le_nat_alt)





lemma elf_image_view_fields:
  "pathname elf_image_view = 0x500" "relplt elf_image_view = 0x10300"
  "relplt_sz elf_image_view = 48" "reldyn elf_image_view = 0x10340"
  "reldyn_sz elf_image_view = 48" "relandroid elf_image_view = 0x10384"
  "relandroid_sz elf_image_view = 12" "is_use_rela elf_image_view = 1"
  by (simp_all add: elf_image_view_def)



text \<open>
  Claim C9 (it fails for the walk over \<^verbatim>\<open>.rela.dyn\<close>).  Hooking the symbol \<open>"a"\<close>
  (index 1) of \<open>elf_image\<close> with the new address \<open>0xBEEF00\<close> and the caller's
  variable at \<open>0x20000\<close> returns \<open>0\<close>.  The walk over \<^verbatim>\<open>.rela.plt\<close> rewrites the
  slot \<open>0x13000\<close>, the walk over the packed region rewrites \<open>0x13018\<close>, and the
  caller's variable ends up with \<open>0xA018\<close>, the old value of the last slot
  rewritten.  But the walk over \<^verbatim>\<open>.rela.dyn\<close> sees the pointers \<open>0x10358\<close> and
  \<open>0x10370\<close> (the second record and the address just past the region) and never
  the first record \<open>0x10340\<close>: that record matches (\<^verbatim>\<open>GLOB_DAT\<close> of symbol 1) and its
  slot \<open>0x13008\<close> still holds \<open>0xA008\<close>, while the slot \<open>0x13010\<close> of the second
  record is rewritten.
\<close>

theorem xh_elf_hook_misses_first_dyn_record:
  "xh_elf_hook elf_image_view (Some [0x61]) 0xBEEF00 0x20000 elf_image_proc
     = Some (Inr (), elf_image_hooked)
   \<and> map (rd_addr (memory elf_image_proc)) [0x13000, 0x13008, 0x13010, 0x13018, 0x13020]
     = [0xA000, 0xA008, 0xA010, 0xA018, 0xA020]
   \<and> map (rd_addr (memory elf_image_hooked)) [0x13000, 0x13008, 0x13010, 0x13018, 0x13020]
     = [0xBEEF00, 0xA008, 0xBEEF00, 0xBEEF00, 0xA020]
   \<and> rd_addr (memory elf_image_hooked) 0x20000 = 0xA018
   \<and> reloc_matches elf_image 1 (InImage 0x10340)
   \<and> bias_addr elf_image_view + reloc_r_offset elf_image (InImage 0x10340) = 0x13008
   \<and> plain_reloc_yield (xh_elf_plain_reloc_iterator_init (reldyn elf_image_view)
         (reldyn_sz elf_image_view) (is_use_rela elf_image_view)) = Some [0x10358, 0x10370]"
proof -
  have a: "map (rd_addr (memory elf_image_proc)) [0x13000, 0x13008, 0x13010, 0x13018, 0x13020]
     = [0xA000, 0xA008, 0xA010, 0xA018, 0xA020]"
    by (simp add: elf_image_proc_def elf_image_reads)
  have b: "map (rd_addr (memory elf_image_hooked)) [0x13000, 0x13008, 0x13010, 0x13018, 0x13020]
     = [0xBEEF00, 0xA008, 0xBEEF00, 0xBEEF00, 0xA020]"
    by (simp add: hooked_defs wr_frame elf_image_reads addr_bytes_def)
  have c: "rd_addr (memory elf_image_hooked) 0x20000 = 0xA018"
    by (simp add: hooked_defs wr_frame elf_image_reads addr_bytes_def)
  have d: "reloc_matches elf_image 1 (InImage 0x10340)"
    "bias_addr elf_image_view + reloc_r_offset elf_image (InImage 0x10340) = 0x13008"
    by (simp_all add: reloc_matches_def reloc_r_info_def reloc_r_offset_def
      elf_field_defs elf_size_defs elf_const_defs elf_image_view_def elf_image_reads)
  have e: "plain_reloc_yield (xh_elf_plain_reloc_iterator_init (reldyn elf_image_view)
         (reldyn_sz elf_image_view) (is_use_rela elf_image_view)) = Some [0x10358, 0x10370]"
    by (simp add: elf_image_view_fields elf_image_yields)
  show ?thesis
    by (simp only: elf_image_hook_first a b c d e simp_thms)
qed



end
